theory Spec2Isabelle
  imports Main "HOL-Library.Word"
begin

section \<open>The host-interface circular-buffer architecture layer\<close>

text \<open>
  A shallow embedding of \<^verbatim>\<open>stack/src/common/circbuf/circbuf-nooshostif.c\<close>: the
  queue registry, instance creation, buffer allocation, connection and release, and the
  one-byte lock of a shared buffer. The target is the 32-bit Nios II of
  \<^verbatim>\<open>hostiflib_nios.h\<close>, so pointers, \<^verbatim>\<open>size_t\<close> and \<^verbatim>\<open>UINT\<close> are 32-bit words and
  their arithmetic wraps around.
\<close>

subsection \<open>Machine types\<close>

type_synonym u8 = "8 word"
type_synonym addr = "32 word"
type_synonym size_t = "32 word"
type_synonym UINT = "32 word"

definition NULL :: addr where
  "NULL = 0"

subsection \<open>Enumerations\<close>

text \<open>
  The members of \<^verbatim>\<open>tHostifInstanceId\<close>, \<^verbatim>\<open>tHostifReturn\<close> and \<^verbatim>\<open>tCircBufError\<close> that the
  file names. Every return code of the host interface other than \<^verbatim>\<open>kHostifSuccessful\<close>
  is \<open>kHostifFailure\<close> with its number.
\<close>

datatype tHostifInstanceId =
    kHostifInstIdU2KQueue
  | kHostifInstIdK2UQueue
  | kHostifInstIdTxGenQueue
  | kHostifInstIdTxNmtQueue
  | kHostifInstIdTxSyncQueue
  | kHostifInstIdInvalid

datatype tHostifReturn = kHostifSuccessful | kHostifFailure nat

datatype tCircBufError = kCircBufOk | kCircBufNoResource

subsection \<open>The queue registry\<close>

text \<open>
  \<^verbatim>\<open>const tHostifInstanceId hostifInstance[NR_OF_CIRC_BUFFERS]\<close> with its eleven
  initialisers, in the order of the source. \<^verbatim>\<open>NR_OF_CIRC_BUFFERS\<close> is declared in a
  header outside the file; it is taken to be the number of initialisers, the length of
  the table as the file gives it.
\<close>

definition hostifInstance :: "tHostifInstanceId list" where
  "hostifInstance =
    [ kHostifInstIdU2KQueue,
      kHostifInstIdK2UQueue,
      kHostifInstIdInvalid,
      kHostifInstIdInvalid,
      kHostifInstIdTxGenQueue,
      kHostifInstIdTxNmtQueue,
      kHostifInstIdTxSyncQueue,
      kHostifInstIdInvalid,
      kHostifInstIdInvalid,
      kHostifInstIdInvalid,
      kHostifInstIdInvalid ]"

definition NR_OF_CIRC_BUFFERS :: nat where
  "NR_OF_CIRC_BUFFERS = length hostifInstance"

text \<open>
  Reading \<^verbatim>\<open>hostifInstance[id]\<close>: an index beyond the array is undefined behaviour in C,
  here the value \<open>None\<close>.
\<close>

definition hostifInstance_at :: "u8 \<Rightarrow> tHostifInstanceId option" where
  "hostifInstance_at id_p =
     (if unat id_p < NR_OF_CIRC_BUFFERS then Some (hostifInstance ! unat id_p) else None)"

subsection \<open>The instance and the shared-buffer envelope\<close>

text \<open>The fields of \<^verbatim>\<open>tCircBufInstance\<close> that the file reads and writes.\<close>

record tCircBufInstance =
  pCircBufArchInstance :: addr
  bufferId :: u8
  pCircBufHeader :: addr
  pCircBuf :: addr

text \<open>
  \<^verbatim>\<open>tCircBufHostiBuffer\<close> is \<^verbatim>\<open>{ UINT8 lock; UINT8 aReserved[3]; tCircBufHeader circBufHeader; }\<close>:
  the lock at offset 0, the header at offset 4. The declaration of \<^verbatim>\<open>tCircBufHeader\<close> is
  outside the file, so its size is a parameter (\<open>sizeof_tCircBufHeader\<close> below); the
  envelope is the four leading bytes and the header.
\<close>

definition offsetof_lock :: addr where
  "offsetof_lock = 0"

definition offsetof_circBufHeader :: addr where
  "offsetof_circBufHeader = 4"

definition GET_QUEUE_BUF_BASE :: "addr \<Rightarrow> addr" where
  "GET_QUEUE_BUF_BASE pHeader = pHeader - offsetof_circBufHeader"

text \<open>
  The lock values. \<^verbatim>\<open>CIRCBUF_HOSTIF_LOCK\<close> depends on the build: \<^verbatim>\<open>0x01U\<close> when
  \<^verbatim>\<open>CONFIG_HOSTIF_PCP == TRUE\<close>, \<^verbatim>\<open>0x02U\<close> otherwise; the flag is its argument.
\<close>

definition CIRCBUF_HOSTIF_LOCK :: "bool \<Rightarrow> u8" where
  "CIRCBUF_HOSTIF_LOCK config_hostif_pcp = (if config_hostif_pcp then 0x01 else 0x02)"

definition CIRCBUF_HOSTIF_UNLOCK :: u8 where
  "CIRCBUF_HOSTIF_UNLOCK = 0x00"

subsection \<open>Collaborators and build configuration\<close>

text \<open>
  What the file takes from outside: the build flag \<^verbatim>\<open>CONFIG_HOSTIF_PCP\<close>, the size of
  the ring header, the host-interface driver (\<^verbatim>\<open>hostif_getInstance\<close>, \<^verbatim>\<open>hostif_getBuf\<close>
  with its two out-parameters returned beside the code) and the choice the heap
  allocator makes for a request (\<open>NULL\<close> when it fails), given the live blocks.
\<close>

record collab =
  CONFIG_HOSTIF_PCP :: bool
  sizeof_tCircBufHeader :: size_t
  hostif_getInstance :: "nat \<Rightarrow> addr"
  hostif_getBuf :: "addr \<Rightarrow> tHostifInstanceId \<Rightarrow> tHostifReturn \<times> addr \<times> UINT"
  malloc_choice :: "(addr \<times> size_t) list \<Rightarrow> size_t \<Rightarrow> addr"

definition sizeof_tCircBufHostiBuffer :: "collab \<Rightarrow> size_t" where
  "sizeof_tCircBufHostiBuffer c = 4 + sizeof_tCircBufHeader c"

subsection \<open>The machine state\<close>

text \<open>
  Byte-addressed memory, the trace of the accesses made through \<^verbatim>\<open>HOSTIF_RD8\<close> and
  \<^verbatim>\<open>HOSTIF_WR8\<close> in program order, the heap's live blocks, the pointers passed to
  \<^verbatim>\<open>OPLK_FREE\<close> that were not live blocks (a double or wild free), and the global
  interrupt enable.
\<close>

datatype mmio_event = Rd addr u8 | Wr addr u8

record world =
  mem :: "addr \<Rightarrow> u8"
  mmio :: "mmio_event list"
  heap_live :: "(addr \<times> size_t) list"
  heap_bad_free :: "addr list"
  irq_enabled :: bool

definition HOSTIF_RD8 :: "addr \<Rightarrow> addr \<Rightarrow> world \<Rightarrow> u8 \<times> world" where
  "HOSTIF_RD8 base offset w =
     (mem w (base + offset),
      w\<lparr>mmio := mmio w @ [Rd (base + offset) (mem w (base + offset))]\<rparr>)"

definition HOSTIF_WR8 :: "addr \<Rightarrow> addr \<Rightarrow> u8 \<Rightarrow> world \<Rightarrow> world" where
  "HOSTIF_WR8 base offset byte w =
     w\<lparr>mem := (mem w)(base + offset := byte),
       mmio := mmio w @ [Wr (base + offset) byte]\<rparr>"

definition target_enableGlobalInterrupt :: "bool \<Rightarrow> world \<Rightarrow> world" where
  "target_enableGlobalInterrupt fEnable w = w\<lparr>irq_enabled := fEnable\<rparr>"

definition OPLK_MALLOC :: "collab \<Rightarrow> size_t \<Rightarrow> world \<Rightarrow> addr \<times> world" where
  "OPLK_MALLOC c sz w =
     (let p = malloc_choice c (heap_live w) sz
      in if p = NULL then (NULL, w)
         else (p, w\<lparr>heap_live := (p, sz) # heap_live w\<rparr>))"

definition OPLK_FREE :: "addr \<Rightarrow> world \<Rightarrow> world" where
  "OPLK_FREE p w =
     (if p = NULL then w
      else if p \<in> fst ` set (heap_live w)
        then w\<lparr>heap_live := filter (\<lambda>b. fst b \<noteq> p) (heap_live w)\<rparr>
        else w\<lparr>heap_bad_free := heap_bad_free w @ [p]\<rparr>)"

subsection \<open>Instances\<close>

text \<open>
  \<^verbatim>\<open>circbuf_createInstance\<close> works on the table \<^verbatim>\<open>instance_l\<close>. The pointer it returns is
  the index of the entry, \<open>None\<close> for the C \<^verbatim>\<open>NULL\<close>; the outer \<open>None\<close> is the undefined
  behaviour of an id beyond the arrays.
\<close>

definition circbuf_createInstance ::
  "collab \<Rightarrow> u8 \<Rightarrow> tCircBufInstance list \<Rightarrow> (nat option \<times> tCircBufInstance list) option" where
  "circbuf_createInstance c id_p instance_l =
     (case hostifInstance_at id_p of
        None \<Rightarrow> None
      | Some slot \<Rightarrow>
          (let i = unat id_p in
           if length instance_l \<le> i then None
           else if slot = kHostifInstIdInvalid then
             Some (Some i,
                   instance_l[i := (instance_l ! i)\<lparr>pCircBufArchInstance := NULL,
                                                 bufferId := id_p\<rparr>])
           else
             (let pHostif = hostif_getInstance c 0 in
              if pHostif = NULL then Some (None, instance_l)
              else
                Some (Some i,
                      instance_l[i := (instance_l ! i)\<lparr>pCircBufArchInstance := pHostif,
                                                    bufferId := id_p\<rparr>]))))"

definition circbuf_freeInstance :: "tCircBufInstance \<Rightarrow> world \<Rightarrow> tCircBufInstance \<times> world" where
  "circbuf_freeInstance pInstance_p w = (pInstance_p, w)"

subsection \<open>Buffers\<close>

text \<open>
  \<^verbatim>\<open>circbuf_allocBuffer(pInstance_p, pSize_p)\<close>: the instance and \<^verbatim>\<open>*pSize_p\<close> go in and
  come out again beside the error code (the local \<^verbatim>\<open>size\<close> is \<open>sz\<close>). \<open>None\<close> is the undefined behaviour of reading
  \<^verbatim>\<open>hostifInstance\<close> at a \<open>bufferId\<close> beyond the table.
\<close>

definition circbuf_allocBuffer ::
  "collab \<Rightarrow> tCircBufInstance \<Rightarrow> size_t \<Rightarrow> world \<Rightarrow>
     (tCircBufError \<times> tCircBufInstance \<times> size_t \<times> world) option" where
  "circbuf_allocBuffer c pInstance_p pSize_p w =
     (let sz = pSize_p in
      if pCircBufArchInstance pInstance_p = NULL then
        (let sz = sz + sizeof_tCircBufHeader c;
             (p, w1) = OPLK_MALLOC c sz w;
             inst1 = pInstance_p\<lparr>pCircBufHeader := p\<rparr>
         in if pCircBufHeader inst1 = NULL then Some (kCircBufNoResource, inst1, pSize_p, w1)
            else
              Some (kCircBufOk,
                    inst1\<lparr>pCircBuf := pCircBufHeader inst1 + sizeof_tCircBufHeader c\<rparr>,
                    pSize_p, w1))
      else
        (case hostifInstance_at (bufferId pInstance_p) of
           None \<Rightarrow> None
         | Some slot \<Rightarrow>
             (let pHostif = pCircBufArchInstance pInstance_p;
                  (ret, pBufBase, bufSize) = hostif_getBuf c pHostif slot
              in if ret \<noteq> kHostifSuccessful then Some (kCircBufNoResource, pInstance_p, pSize_p, w)
                 else if sz > bufSize then Some (kCircBufNoResource, pInstance_p, pSize_p, w)
                 else
                   (let pHostifBuffer = pBufBase;
                        inst1 = pInstance_p\<lparr>pCircBufHeader := pHostifBuffer + offsetof_circBufHeader\<rparr>;
                        inst2 = inst1\<lparr>pCircBuf := pHostifBuffer + sizeof_tCircBufHostiBuffer c\<rparr>;
                        sz = sz - sizeof_tCircBufHostiBuffer c;
                        w1 = HOSTIF_WR8 (pHostifBuffer + offsetof_lock) 0 CIRCBUF_HOSTIF_UNLOCK w
                    in Some (kCircBufOk, inst2, sz, w1)))))"

definition circbuf_freeBuffer :: "tCircBufInstance \<Rightarrow> world \<Rightarrow> tCircBufInstance \<times> world" where
  "circbuf_freeBuffer pInstance_p w =
     (if pCircBufArchInstance pInstance_p = NULL
      then (pInstance_p, OPLK_FREE (pCircBufHeader pInstance_p) w)
      else (pInstance_p, w))"

text \<open>
  \<^verbatim>\<open>circbuf_connectBuffer\<close>. Its \<^verbatim>\<open>TRACE\<close> call prints the pointers and reads
  \<^verbatim>\<open>bufferSize\<close> from the header; it stores nothing.
\<close>

definition circbuf_connectBuffer ::
  "collab \<Rightarrow> tCircBufInstance \<Rightarrow> world \<Rightarrow> (tCircBufError \<times> tCircBufInstance \<times> world) option" where
  "circbuf_connectBuffer c pInstance_p w =
     (if pCircBufArchInstance pInstance_p \<noteq> NULL then
        (case hostifInstance_at (bufferId pInstance_p) of
           None \<Rightarrow> None
         | Some slot \<Rightarrow>
             (let pHostif = pCircBufArchInstance pInstance_p;
                  (ret, pBufBase, bufSize) = hostif_getBuf c pHostif slot
              in if ret \<noteq> kHostifSuccessful then Some (kCircBufNoResource, pInstance_p, w)
                 else
                   (let pHostifBuffer = pBufBase;
                        inst1 = pInstance_p\<lparr>pCircBufHeader := pHostifBuffer + offsetof_circBufHeader\<rparr>;
                        inst2 = inst1\<lparr>pCircBuf := pHostifBuffer + sizeof_tCircBufHostiBuffer c\<rparr>
                    in Some (kCircBufOk, inst2, w))))
      else Some (kCircBufOk, pInstance_p, w))"

definition circbuf_disconnectBuffer :: "tCircBufInstance \<Rightarrow> world \<Rightarrow> tCircBufInstance \<times> world" where
  "circbuf_disconnectBuffer pInstance_p w = (pInstance_p, w)"

subsection \<open>The lock\<close>

text \<open>
  One pass through the body of the \<^verbatim>\<open>do { ... } while\<close> of \<^verbatim>\<open>circbuf_lock\<close>: the read,
  and the write when the byte read is \<^verbatim>\<open>UNLOCK\<close>. It returns \<open>lockValue\<close>. The
  \<^verbatim>\<open>continue\<close> after the write goes, as the end of the body does, to the loop condition,
  which is evaluated on \<open>lockValue\<close> in \<open>lock_loop\<close>.
\<close>

definition lock_body :: "collab \<Rightarrow> addr \<Rightarrow> world \<Rightarrow> u8 \<times> world" where
  "lock_body c pHostifBuf w =
     (let (lockValue, w1) = HOSTIF_RD8 (pHostifBuf + offsetof_lock) 0 w
      in if lockValue = CIRCBUF_HOSTIF_UNLOCK
         then (lockValue, HOSTIF_WR8 (pHostifBuf + offsetof_lock) 0
                 (CIRCBUF_HOSTIF_LOCK (CONFIG_HOSTIF_PCP c)) w1)
         else (lockValue, w1))"

text \<open>
  The loop. Memory changes only through the calling CPU here, so a byte that holds the
  other side's value is read for ever: the loop does not return, the value \<open>None\<close>.
\<close>

partial_function (option) lock_loop :: "collab \<Rightarrow> addr \<Rightarrow> world \<Rightarrow> world option" where
  "lock_loop c pHostifBuf w =
     (case lock_body c pHostifBuf w of
        (lockValue, w1) \<Rightarrow>
          if lockValue \<noteq> CIRCBUF_HOSTIF_LOCK (CONFIG_HOSTIF_PCP c)
          then lock_loop c pHostifBuf w1 else Some w1)"

definition circbuf_lock :: "collab \<Rightarrow> tCircBufInstance \<Rightarrow> world \<Rightarrow> world option" where
  "circbuf_lock c pInstance_p w =
     (let w1 = target_enableGlobalInterrupt False w
      in if pCircBufArchInstance pInstance_p \<noteq> NULL
         then lock_loop c (GET_QUEUE_BUF_BASE (pCircBufHeader pInstance_p)) w1
         else Some w1)"

definition circbuf_unlock :: "collab \<Rightarrow> tCircBufInstance \<Rightarrow> world \<Rightarrow> world" where
  "circbuf_unlock c pInstance_p w =
     (let w1 = (if pCircBufArchInstance pInstance_p \<noteq> NULL
                then HOSTIF_WR8 (GET_QUEUE_BUF_BASE (pCircBufHeader pInstance_p) + offsetof_lock) 0
                       CIRCBUF_HOSTIF_UNLOCK w
                else w)
      in target_enableGlobalInterrupt True w1)"

subsection \<open>Two CPUs on one lock byte\<close>

text \<open>
  The interleaving model of the lock: the PCP (built with \<^verbatim>\<open>CONFIG_HOSTIF_PCP == TRUE\<close>)
  and the host (built without) run \<^verbatim>\<open>circbuf_lock\<close> and then \<^verbatim>\<open>circbuf_unlock\<close> on the
  same shared buffer. Each CPU has its program point and its local \<open>lockValue\<close>; the
  lock byte is shared. A step of a CPU executes the statement at its program point,
  named by its line in the source:
  \<^item> \<open>L378_read\<close>: \<^verbatim>\<open>lockValue = HOSTIF_RD8(&(pHostifBuf->lock), 0);\<close>
  \<^item> \<open>L380_test\<close>: \<^verbatim>\<open>if (lockValue == CIRCBUF_HOSTIF_UNLOCK)\<close>
  \<^item> \<open>L383_write\<close>: \<^verbatim>\<open>HOSTIF_WR8(&(pHostifBuf->lock), 0, CIRCBUF_HOSTIF_LOCK); continue;\<close>
  \<^item> \<open>L386_while\<close>: \<^verbatim>\<open>while (lockValue != CIRCBUF_HOSTIF_LOCK);\<close>
  \<^item> \<open>Locked\<close>: \<^verbatim>\<open>circbuf_lock\<close> has returned; the next step is the write of line 408 in
    \<^verbatim>\<open>circbuf_unlock\<close>
  \<^item> \<open>Unlocked\<close>: \<^verbatim>\<open>circbuf_unlock\<close> has run.
\<close>

datatype cpu = PCP | HOST

datatype pc = L378_read | L380_test | L383_write | L386_while | Locked | Unlocked

record cpu_regs =
  pc :: pc
  lockValue :: u8

record two_cpu =
  lock_byte :: u8
  pcp_regs :: cpu_regs
  host_regs :: cpu_regs

definition config_of :: "cpu \<Rightarrow> bool" where
  "config_of k = (case k of PCP \<Rightarrow> True | HOST \<Rightarrow> False)"

definition thread_step :: "bool \<Rightarrow> u8 \<times> cpu_regs \<Rightarrow> u8 \<times> cpu_regs" where
  "thread_step config_hostif_pcp s =
     (case s of
        (byte, r) \<Rightarrow>
          (case pc r of
             L378_read \<Rightarrow> (byte, r\<lparr>pc := L380_test, lockValue := byte\<rparr>)
           | L380_test \<Rightarrow>
               (byte, r\<lparr>pc := (if lockValue r = CIRCBUF_HOSTIF_UNLOCK then L383_write
                                else L386_while)\<rparr>)
           | L383_write \<Rightarrow> (CIRCBUF_HOSTIF_LOCK config_hostif_pcp, r\<lparr>pc := L386_while\<rparr>)
           | L386_while \<Rightarrow>
               (byte, r\<lparr>pc := (if lockValue r \<noteq> CIRCBUF_HOSTIF_LOCK config_hostif_pcp
                                then L378_read else Locked)\<rparr>)
           | Locked \<Rightarrow> (CIRCBUF_HOSTIF_UNLOCK, r\<lparr>pc := Unlocked\<rparr>)
           | Unlocked \<Rightarrow> (byte, r)))"

definition cpu_step :: "cpu \<Rightarrow> two_cpu \<Rightarrow> two_cpu" where
  "cpu_step k s =
     (case k of
        PCP \<Rightarrow>
          (case thread_step (config_of PCP) (lock_byte s, pcp_regs s) of
             (byte, r) \<Rightarrow> s\<lparr>lock_byte := byte, pcp_regs := r\<rparr>)
      | HOST \<Rightarrow>
          (case thread_step (config_of HOST) (lock_byte s, host_regs s) of
             (byte, r) \<Rightarrow> s\<lparr>lock_byte := byte, host_regs := r\<rparr>))"

text \<open>A schedule is the order in which the CPUs take their steps.\<close>

fun run_schedule :: "cpu list \<Rightarrow> two_cpu \<Rightarrow> two_cpu" where
  "run_schedule [] s = s"
| "run_schedule (k # ks) s = run_schedule ks (cpu_step k s)"

text \<open>
  Both CPUs enter \<^verbatim>\<open>circbuf_lock\<close> on a buffer whose lock byte \<^verbatim>\<open>circbuf_allocBuffer\<close>
  has set to \<^verbatim>\<open>UNLOCK\<close>.
\<close>

definition both_enter_lock :: two_cpu where
  "both_enter_lock =
     \<lparr>lock_byte = CIRCBUF_HOSTIF_UNLOCK,
      pcp_regs = \<lparr>pc = L378_read, lockValue = 0\<rparr>,
      host_regs = \<lparr>pc = L378_read, lockValue = 0\<rparr>\<rparr>"

text \<open>
  A CPU is inside the lock when \<^verbatim>\<open>circbuf_lock\<close> has returned to it, on having read its
  own lock value, and it has not yet run \<^verbatim>\<open>circbuf_unlock\<close>.
\<close>

definition inside_lock :: "cpu \<Rightarrow> two_cpu \<Rightarrow> bool" where
  "inside_lock k s =
     (case k of
        PCP \<Rightarrow>
          pc (pcp_regs s) = Locked \<and>
          lockValue (pcp_regs s) = CIRCBUF_HOSTIF_LOCK (config_of PCP)
      | HOST \<Rightarrow>
          pc (host_regs s) = Locked \<and>
          lockValue (host_regs s) = CIRCBUF_HOSTIF_LOCK (config_of HOST))"

subsection \<open>Traces\<close>

text \<open>
  The accesses a call adds to the trace, the address of an access, and the values a
  build may store into a lock byte.
\<close>

definition new_events :: "world \<Rightarrow> world \<Rightarrow> mmio_event list" where
  "new_events w w' = drop (length (mmio w)) (mmio w')"

definition extends_trace :: "world \<Rightarrow> world \<Rightarrow> bool" where
  "extends_trace w w' = (take (length (mmio w)) (mmio w') = mmio w)"

fun event_addr :: "mmio_event \<Rightarrow> addr" where
  "event_addr (Rd a v) = a"
| "event_addr (Wr a v) = a"

fun written_values :: "mmio_event list \<Rightarrow> u8 list" where
  "written_values [] = []"
| "written_values (Rd a v # es) = written_values es"
| "written_values (Wr a v # es) = v # written_values es"

definition own_lock_values :: "bool \<Rightarrow> u8 set" where
  "own_lock_values config_hostif_pcp =
     {CIRCBUF_HOSTIF_UNLOCK, CIRCBUF_HOSTIF_LOCK config_hostif_pcp}"

text \<open>The call that led from \<open>w\<close> to \<open>w'\<close> added to the trace, and stored only such values.\<close>

definition stores_only_own :: "collab \<Rightarrow> world \<Rightarrow> world \<Rightarrow> bool" where
  "stores_only_own c w w' =
     (extends_trace w w' \<and>
      set (written_values (new_events w w')) \<subseteq> own_lock_values (CONFIG_HOSTIF_PCP c))"

text \<open>
  From the world \<open>w\<close>, \<^verbatim>\<open>circbuf_unlock\<close> on the instance makes one access, the store of
  \<^verbatim>\<open>UNLOCK\<close> to the address \<open>a\<close>; a pass through the loop body of \<^verbatim>\<open>circbuf_lock\<close> on
  the instance makes at least one access, each to the address \<open>a\<close>; and so has a call
  of \<^verbatim>\<open>circbuf_lock\<close> that returns.
\<close>

definition accesses_lock_at :: "collab \<Rightarrow> tCircBufInstance \<Rightarrow> addr \<Rightarrow> world \<Rightarrow> bool" where
  "accesses_lock_at c pInstance_p a w =
     (new_events w (circbuf_unlock c pInstance_p w) = [Wr a CIRCBUF_HOSTIF_UNLOCK] \<and>
      new_events w (snd (lock_body c (GET_QUEUE_BUF_BASE (pCircBufHeader pInstance_p)) w)) \<noteq> [] \<and>
      list_all (\<lambda>e. event_addr e = a)
        (new_events w (snd (lock_body c (GET_QUEUE_BUF_BASE (pCircBufHeader pInstance_p)) w))) \<and>
      (case circbuf_lock c pInstance_p w of
         None \<Rightarrow> True
       | Some w' \<Rightarrow>
           new_events w w' \<noteq> [] \<and> list_all (\<lambda>e. event_addr e = a) (new_events w w')))"

subsection \<open>Example configurations\<close>

text \<open>
  A PCP build with a 20-byte ring header: the host interface is present at
  \<^verbatim>\<open>HOSTIF_BASE\<close>, every shared slot has a window of 1024 bytes at \<open>0x10000800\<close>, and the
  heap has room for one block, at \<open>0x2000\<close>.
\<close>

definition ex_collab :: collab where
  "ex_collab =
     \<lparr>CONFIG_HOSTIF_PCP = True,
      sizeof_tCircBufHeader = 20,
      hostif_getInstance = (\<lambda>n. 0x10000000),
      hostif_getBuf = (\<lambda>h slot. (kHostifSuccessful, 0x10000800, 1024)),
      malloc_choice = (\<lambda>live sz. if live = [] then 0x2000 else 0)\<rparr>"

text \<open>The same build where the host interface is absent and its buffers cannot be had.\<close>

definition ex_collab_absent :: collab where
  "ex_collab_absent =
     ex_collab\<lparr>hostif_getInstance := (\<lambda>n. 0),
               hostif_getBuf := (\<lambda>h slot. (kHostifFailure 1, 0, 0))\<rparr>"

text \<open>A memory of \<open>0xAA\<close> bytes, nothing traced, an empty heap, interrupts enabled.\<close>

definition ex_world :: world where
  "ex_world =
     \<lparr>mem = (\<lambda>a. 0xAA), mmio = [], heap_live = [], heap_bad_free = [], irq_enabled = True\<rparr>"

text \<open>Instances as \<^verbatim>\<open>circbuf_createInstance\<close> leaves them: queue 0 is shared, queue 2 local.\<close>

definition ex_shared :: tCircBufInstance where
  "ex_shared =
     \<lparr>pCircBufArchInstance = 0x10000000, bufferId = 0, pCircBufHeader = 0, pCircBuf = 0\<rparr>"

definition ex_local :: tCircBufInstance where
  "ex_local = \<lparr>pCircBufArchInstance = 0, bufferId = 2, pCircBufHeader = 0, pCircBuf = 0\<rparr>"

definition ex_instance_l :: "tCircBufInstance list" where
  "ex_instance_l =
     replicate 11 \<lparr>pCircBufArchInstance = 0, bufferId = 0, pCircBufHeader = 0, pCircBuf = 0\<rparr>"

text \<open>
  The shared instance once its buffer is wired (the window of \<open>ex_collab\<close>), and a memory
  whose lock byte there is \<^verbatim>\<open>UNLOCK\<close>.
\<close>

definition ex_shared_ready :: tCircBufInstance where
  "ex_shared_ready = ex_shared\<lparr>pCircBufHeader := 0x10000804, pCircBuf := 0x10000818\<rparr>"

definition ex_world_unlocked :: world where
  "ex_world_unlocked = ex_world\<lparr>mem := (mem ex_world)(0x10000800 := 0)\<rparr>"

text \<open>
  The local instance after \<^verbatim>\<open>circbuf_allocBuffer\<close> for 16 bytes under \<open>ex_collab\<close>, and the
  world it leaves: one live block of 36 bytes at \<open>0x2000\<close>.
\<close>

definition ex_local_ready :: tCircBufInstance where
  "ex_local_ready = ex_local\<lparr>pCircBufHeader := 0x2000, pCircBuf := 0x2014\<rparr>"

definition ex_world_allocated :: world where
  "ex_world_allocated = ex_world\<lparr>heap_live := [(0x2000, 36)]\<rparr>"

section \<open>Properties\<close>

subsection \<open>The lock loop without interference\<close>

lemma LOCK_neq_UNLOCK: "CIRCBUF_HOSTIF_LOCK b \<noteq> CIRCBUF_HOSTIF_UNLOCK"
  by (simp add: CIRCBUF_HOSTIF_LOCK_def CIRCBUF_HOSTIF_UNLOCK_def)

lemma lock_body_unlock:
  assumes "mem w a = CIRCBUF_HOSTIF_UNLOCK"
  shows "lock_body c a w =
     (CIRCBUF_HOSTIF_UNLOCK,
      w\<lparr>mem := (mem w)(a := CIRCBUF_HOSTIF_LOCK (CONFIG_HOSTIF_PCP c)),
        mmio := mmio w @ [Rd a CIRCBUF_HOSTIF_UNLOCK,
                          Wr a (CIRCBUF_HOSTIF_LOCK (CONFIG_HOSTIF_PCP c))]\<rparr>)"
  using assms by (simp add: lock_body_def HOSTIF_RD8_def HOSTIF_WR8_def offsetof_lock_def)

lemma lock_body_other:
  assumes "mem w a \<noteq> CIRCBUF_HOSTIF_UNLOCK"
  shows "lock_body c a w = (mem w a, w\<lparr>mmio := mmio w @ [Rd a (mem w a)]\<rparr>)"
  using assms by (simp add: lock_body_def HOSTIF_RD8_def HOSTIF_WR8_def offsetof_lock_def)

lemma lock_loop_held:
  assumes "mem w a = CIRCBUF_HOSTIF_LOCK (CONFIG_HOSTIF_PCP c)"
  shows "lock_loop c a w =
     Some (w\<lparr>mmio := mmio w @ [Rd a (CIRCBUF_HOSTIF_LOCK (CONFIG_HOSTIF_PCP c))]\<rparr>)"
  using assms by (subst lock_loop.simps) (simp add: lock_body_other LOCK_neq_UNLOCK)

lemma lock_loop_free:
  assumes "mem w a = CIRCBUF_HOSTIF_UNLOCK"
  shows "lock_loop c a w =
     Some (w\<lparr>mem := (mem w)(a := CIRCBUF_HOSTIF_LOCK (CONFIG_HOSTIF_PCP c)),
             mmio := mmio w @ [Rd a CIRCBUF_HOSTIF_UNLOCK,
                               Wr a (CIRCBUF_HOSTIF_LOCK (CONFIG_HOSTIF_PCP c)),
                               Rd a (CIRCBUF_HOSTIF_LOCK (CONFIG_HOSTIF_PCP c))]\<rparr>)"
proof -
  let ?L = "CIRCBUF_HOSTIF_LOCK (CONFIG_HOSTIF_PCP c)"
  let ?w1 = "w\<lparr>mem := (mem w)(a := ?L), mmio := mmio w @ [Rd a CIRCBUF_HOSTIF_UNLOCK, Wr a ?L]\<rparr>"
  have "lock_loop c a w = lock_loop c a ?w1"
    using assms LOCK_neq_UNLOCK [of "CONFIG_HOSTIF_PCP c"]
    by (subst lock_loop.simps) (simp add: lock_body_unlock)
  also have "\<dots> = Some (?w1\<lparr>mmio := mmio ?w1 @ [Rd a ?L]\<rparr>)"
    by (rule lock_loop_held) simp
  finally show ?thesis by simp
qed

text \<open>A call that returns found the byte free or already holding the caller's value.\<close>

lemma lock_loop_returns:
  assumes "lock_loop c a w = Some w'"
  shows "mem w a = CIRCBUF_HOSTIF_UNLOCK \<or> mem w a = CIRCBUF_HOSTIF_LOCK (CONFIG_HOSTIF_PCP c)"
  using assms
proof (induction c a w w' rule: lock_loop.raw_induct [rotated 1, consumes 1, case_names step])
  case (step loop c a w w')
  show ?case
  proof (rule ccontr)
    assume other: "\<not> ?thesis"
    then have "lock_body c a w = (mem w a, w\<lparr>mmio := mmio w @ [Rd a (mem w a)]\<rparr>)"
      by (simp add: lock_body_other)
    with step(2) other have "loop c a (w\<lparr>mmio := mmio w @ [Rd a (mem w a)]\<rparr>) = Some w'"
      by simp
    from step(1) [OF this] other show False by simp
  qed
qed

text \<open>With the other side's value in the byte and nobody to change it, the loop spins.\<close>

lemma lock_loop_spins:
  assumes "mem w a \<noteq> CIRCBUF_HOSTIF_UNLOCK"
    and "mem w a \<noteq> CIRCBUF_HOSTIF_LOCK (CONFIG_HOSTIF_PCP c)"
  shows "lock_loop c a w = None"
proof (cases "lock_loop c a w")
  case None
  then show ?thesis .
next
  case (Some w')
  from lock_loop_returns [OF this] assms show ?thesis by simp
qed

lemma lock_loop_events:
  assumes "lock_loop c a w = Some w'"
  shows "extends_trace w w' \<and>
         (new_events w w' = [Rd a (CIRCBUF_HOSTIF_LOCK (CONFIG_HOSTIF_PCP c))] \<or>
          new_events w w' = [Rd a CIRCBUF_HOSTIF_UNLOCK,
                             Wr a (CIRCBUF_HOSTIF_LOCK (CONFIG_HOSTIF_PCP c)),
                             Rd a (CIRCBUF_HOSTIF_LOCK (CONFIG_HOSTIF_PCP c))])"
proof -
  from lock_loop_returns [OF assms] show ?thesis
  proof
    assume "mem w a = CIRCBUF_HOSTIF_UNLOCK"
    from lock_loop_free [OF this, of c] assms show ?thesis
      by (auto simp: extends_trace_def new_events_def)
  next
    assume "mem w a = CIRCBUF_HOSTIF_LOCK (CONFIG_HOSTIF_PCP c)"
    from lock_loop_held [OF this] assms show ?thesis
      by (auto simp: extends_trace_def new_events_def)
  qed
qed

lemma lock_free_returns:
  assumes "pCircBufArchInstance pInstance_p \<noteq> NULL"
    and "mem w (GET_QUEUE_BUF_BASE (pCircBufHeader pInstance_p) + offsetof_lock)
           = CIRCBUF_HOSTIF_UNLOCK"
  shows "\<exists>w'. circbuf_lock c pInstance_p w = Some w'"
proof -
  have "mem (target_enableGlobalInterrupt False w)
          (GET_QUEUE_BUF_BASE (pCircBufHeader pInstance_p)) = CIRCBUF_HOSTIF_UNLOCK"
    using assms(2) by (simp add: target_enableGlobalInterrupt_def offsetof_lock_def)
  from lock_loop_free [OF this, of c] assms(1) show ?thesis
    by (simp add: circbuf_lock_def)
qed

subsection \<open>Uncontended acquisition\<close>

text \<open>
  C2. For a shared instance whose lock byte holds \<^verbatim>\<open>UNLOCK\<close>, with no write by the
  remote CPU during the call (memory changes only through the caller), \<^verbatim>\<open>circbuf_lock\<close>
  returns. It has then read \<^verbatim>\<open>UNLOCK\<close>, written its own lock value and read the byte
  again: the \<^verbatim>\<open>continue\<close> leads through the loop condition to one more pass, whose read
  returns the caller's own lock value, on which the loop exits. Interrupts are off.
\<close>

theorem circbuf_lock_uncontended:
  assumes "pCircBufArchInstance pInstance_p \<noteq> NULL"
    and "mem w (GET_QUEUE_BUF_BASE (pCircBufHeader pInstance_p) + offsetof_lock)
           = CIRCBUF_HOSTIF_UNLOCK"
  shows "\<exists>w'. circbuf_lock c pInstance_p w = Some w' \<and>
           extends_trace w w' \<and>
           new_events w w' =
             [Rd (GET_QUEUE_BUF_BASE (pCircBufHeader pInstance_p) + offsetof_lock)
                 CIRCBUF_HOSTIF_UNLOCK,
              Wr (GET_QUEUE_BUF_BASE (pCircBufHeader pInstance_p) + offsetof_lock)
                 (CIRCBUF_HOSTIF_LOCK (CONFIG_HOSTIF_PCP c)),
              Rd (GET_QUEUE_BUF_BASE (pCircBufHeader pInstance_p) + offsetof_lock)
                 (CIRCBUF_HOSTIF_LOCK (CONFIG_HOSTIF_PCP c))] \<and>
           last (new_events w w') =
             Rd (GET_QUEUE_BUF_BASE (pCircBufHeader pInstance_p) + offsetof_lock)
                (CIRCBUF_HOSTIF_LOCK (CONFIG_HOSTIF_PCP c)) \<and>
           mem w' (GET_QUEUE_BUF_BASE (pCircBufHeader pInstance_p) + offsetof_lock)
             = CIRCBUF_HOSTIF_LOCK (CONFIG_HOSTIF_PCP c) \<and>
           \<not> irq_enabled w'"
proof -
  let ?a = "GET_QUEUE_BUF_BASE (pCircBufHeader pInstance_p)"
  let ?w1 = "target_enableGlobalInterrupt False w"
  have a: "?a + offsetof_lock = ?a"
    by (simp add: offsetof_lock_def)
  have "mem ?w1 ?a = CIRCBUF_HOSTIF_UNLOCK"
    using assms(2) by (simp add: target_enableGlobalInterrupt_def a)
  from lock_loop_free [OF this, of c] assms(1) show ?thesis
    by (simp add: circbuf_lock_def target_enableGlobalInterrupt_def a
        extends_trace_def new_events_def)
qed

theorem circbuf_lock_uncontended_witness:
  "pCircBufArchInstance ex_shared_ready \<noteq> NULL \<and>
   mem ex_world_unlocked (GET_QUEUE_BUF_BASE (pCircBufHeader ex_shared_ready) + offsetof_lock)
     = CIRCBUF_HOSTIF_UNLOCK \<and>
   (\<exists>w'. circbuf_lock ex_collab ex_shared_ready ex_world_unlocked = Some w' \<and>
      new_events ex_world_unlocked w' = [Rd 0x10000800 0, Wr 0x10000800 1, Rd 0x10000800 1] \<and>
      mem w' 0x10000800 = 1 \<and> \<not> irq_enabled w')"
proof -
  have h1: "pCircBufArchInstance ex_shared_ready \<noteq> NULL"
    by (simp add: ex_shared_ready_def ex_shared_def NULL_def)
  have h2: "mem ex_world_unlocked
              (GET_QUEUE_BUF_BASE (pCircBufHeader ex_shared_ready) + offsetof_lock)
            = CIRCBUF_HOSTIF_UNLOCK"
    by (simp add: ex_world_unlocked_def ex_world_def ex_shared_ready_def ex_shared_def
        GET_QUEUE_BUF_BASE_def offsetof_circBufHeader_def offsetof_lock_def
        CIRCBUF_HOSTIF_UNLOCK_def)
  have a: "GET_QUEUE_BUF_BASE (pCircBufHeader ex_shared_ready) + offsetof_lock = 0x10000800"
    by (simp add: ex_shared_ready_def ex_shared_def GET_QUEUE_BUF_BASE_def
        offsetof_circBufHeader_def offsetof_lock_def)
  have l: "CIRCBUF_HOSTIF_LOCK (CONFIG_HOSTIF_PCP ex_collab) = 1"
    by (simp add: CIRCBUF_HOSTIF_LOCK_def ex_collab_def)
  from circbuf_lock_uncontended [OF h1 h2, of ex_collab] h1 h2 show ?thesis
    unfolding a l by (auto simp: CIRCBUF_HOSTIF_UNLOCK_def)
qed

subsection \<open>What the buffer operations compute\<close>

lemma OPLK_MALLOC_frame:
  assumes "OPLK_MALLOC c sz w = (p, w1)"
  shows "mem w1 = mem w" and "mmio w1 = mmio w" and "irq_enabled w1 = irq_enabled w"
    and "heap_bad_free w1 = heap_bad_free w"
    and "p = malloc_choice c (heap_live w) sz"
    and "heap_live w1 = (if p = NULL then heap_live w else (p, sz) # heap_live w)"
  using assms by (auto simp: OPLK_MALLOC_def Let_def split: if_splits)

lemma allocBuffer_local_eq:
  assumes "pCircBufArchInstance pInstance_p = NULL"
    and "OPLK_MALLOC c (pSize_p + sizeof_tCircBufHeader c) w = (p, w1)"
  shows "circbuf_allocBuffer c pInstance_p pSize_p w =
     Some (if p = NULL
           then (kCircBufNoResource, pInstance_p\<lparr>pCircBufHeader := NULL\<rparr>, pSize_p, w1)
           else (kCircBufOk,
                 pInstance_p\<lparr>pCircBufHeader := p, pCircBuf := p + sizeof_tCircBufHeader c\<rparr>,
                 pSize_p, w1))"
  using assms by (simp add: circbuf_allocBuffer_def Let_def)

lemma allocBuffer_shared_eq:
  assumes "pCircBufArchInstance pInstance_p \<noteq> NULL"
    and "hostifInstance_at (bufferId pInstance_p) = Some slot"
    and "hostif_getBuf c (pCircBufArchInstance pInstance_p) slot = (ret, pBufBase, bufSize)"
  shows "circbuf_allocBuffer c pInstance_p pSize_p w =
     Some (if ret \<noteq> kHostifSuccessful \<or> pSize_p > bufSize
           then (kCircBufNoResource, pInstance_p, pSize_p, w)
           else (kCircBufOk,
                 pInstance_p\<lparr>pCircBufHeader := pBufBase + offsetof_circBufHeader,
                             pCircBuf := pBufBase + sizeof_tCircBufHostiBuffer c\<rparr>,
                 pSize_p - sizeof_tCircBufHostiBuffer c,
                 w\<lparr>mem := (mem w)(pBufBase := CIRCBUF_HOSTIF_UNLOCK),
                   mmio := mmio w @ [Wr pBufBase CIRCBUF_HOSTIF_UNLOCK]\<rparr>))"
  using assms by (simp add: circbuf_allocBuffer_def Let_def HOSTIF_WR8_def offsetof_lock_def)

lemma allocBuffer_shared_cases:
  assumes "pCircBufArchInstance pInstance_p \<noteq> NULL"
    and "circbuf_allocBuffer c pInstance_p pSize_p w = Some res"
  obtains slot ret pBufBase bufSize where
    "hostifInstance_at (bufferId pInstance_p) = Some slot"
    "hostif_getBuf c (pCircBufArchInstance pInstance_p) slot = (ret, pBufBase, bufSize)"
proof (cases "hostifInstance_at (bufferId pInstance_p)")
  case None
  with assms show ?thesis by (simp add: circbuf_allocBuffer_def)
next
  case (Some slot)
  obtain ret pBufBase bufSize where
    "hostif_getBuf c (pCircBufArchInstance pInstance_p) slot = (ret, pBufBase, bufSize)"
    by (cases "hostif_getBuf c (pCircBufArchInstance pInstance_p) slot") auto
  with Some that show ?thesis by blast
qed

lemma connectBuffer_shared_eq:
  assumes "pCircBufArchInstance pInstance_p \<noteq> NULL"
    and "hostifInstance_at (bufferId pInstance_p) = Some slot"
    and "hostif_getBuf c (pCircBufArchInstance pInstance_p) slot = (ret, pBufBase, bufSize)"
  shows "circbuf_connectBuffer c pInstance_p w =
     Some (if ret \<noteq> kHostifSuccessful
           then (kCircBufNoResource, pInstance_p, w)
           else (kCircBufOk,
                 pInstance_p\<lparr>pCircBufHeader := pBufBase + offsetof_circBufHeader,
                             pCircBuf := pBufBase + sizeof_tCircBufHostiBuffer c\<rparr>,
                 w))"
  using assms by (simp add: circbuf_connectBuffer_def Let_def)

lemma unlock_eq:
  "circbuf_unlock c pInstance_p w =
     (if pCircBufArchInstance pInstance_p \<noteq> NULL
      then w\<lparr>mem := (mem w)(GET_QUEUE_BUF_BASE (pCircBufHeader pInstance_p)
                               := CIRCBUF_HOSTIF_UNLOCK),
             mmio := mmio w @ [Wr (GET_QUEUE_BUF_BASE (pCircBufHeader pInstance_p))
                                  CIRCBUF_HOSTIF_UNLOCK],
             irq_enabled := True\<rparr>
      else w\<lparr>irq_enabled := True\<rparr>)"
  by (simp add: circbuf_unlock_def HOSTIF_WR8_def offsetof_lock_def
      target_enableGlobalInterrupt_def)

lemma lock_events:
  assumes "circbuf_lock c pInstance_p w = Some w'"
  shows "extends_trace w w' \<and>
    (new_events w w' = [] \<or>
     new_events w w' = [Rd (GET_QUEUE_BUF_BASE (pCircBufHeader pInstance_p))
                           (CIRCBUF_HOSTIF_LOCK (CONFIG_HOSTIF_PCP c))] \<or>
     new_events w w' = [Rd (GET_QUEUE_BUF_BASE (pCircBufHeader pInstance_p))
                           CIRCBUF_HOSTIF_UNLOCK,
                        Wr (GET_QUEUE_BUF_BASE (pCircBufHeader pInstance_p))
                           (CIRCBUF_HOSTIF_LOCK (CONFIG_HOSTIF_PCP c)),
                        Rd (GET_QUEUE_BUF_BASE (pCircBufHeader pInstance_p))
                           (CIRCBUF_HOSTIF_LOCK (CONFIG_HOSTIF_PCP c))])"
proof (cases "pCircBufArchInstance pInstance_p = NULL")
  case True
  with assms show ?thesis
    by (auto simp: circbuf_lock_def target_enableGlobalInterrupt_def extends_trace_def
        new_events_def)
next
  case False
  let ?w1 = "target_enableGlobalInterrupt False w"
  from False assms
  have "lock_loop c (GET_QUEUE_BUF_BASE (pCircBufHeader pInstance_p)) ?w1 = Some w'"
    by (simp add: circbuf_lock_def)
  from lock_loop_events [OF this] show ?thesis
    by (simp add: extends_trace_def new_events_def target_enableGlobalInterrupt_def)
qed

subsection \<open>Values stored into the lock byte\<close>

text \<open>
  C3. Every store made through \<^verbatim>\<open>HOSTIF_WR8\<close> by \<^verbatim>\<open>circbuf_allocBuffer\<close>, by
  \<^verbatim>\<open>circbuf_lock\<close> (by a call that returns, and by any single pass through its loop body,
  whatever the memory holds at that moment) and by \<^verbatim>\<open>circbuf_unlock\<close> stores
  \<^verbatim>\<open>UNLOCK\<close> (0) or the build's own lock value: 1 in a PCP build, 2 otherwise. The other
  build's lock value is never among them. \<^verbatim>\<open>circbuf_connectBuffer\<close> and
  \<^verbatim>\<open>circbuf_freeBuffer\<close> store nothing that way. The same holds of every step of either CPU
  in the two-CPU model: the lock byte keeps its value or takes one of the two values of
  the CPU that steps.
\<close>

theorem lock_byte_write_invariant:
  "(\<forall>r inst' sz' w'.
      circbuf_allocBuffer c pInstance_p pSize_p w = Some (r, inst', sz', w') \<longrightarrow>
      stores_only_own c w w') \<and>
   (\<forall>w'. circbuf_lock c pInstance_p w = Some w' \<longrightarrow> stores_only_own c w w') \<and>
   stores_only_own c w (snd (lock_body c a w)) \<and>
   stores_only_own c w (circbuf_unlock c pInstance_p w) \<and>
   (\<forall>r inst' w'.
      circbuf_connectBuffer c pInstance_p w = Some (r, inst', w') \<longrightarrow> mmio w' = mmio w) \<and>
   mmio (snd (circbuf_freeBuffer pInstance_p w)) = mmio w \<and>
   own_lock_values True = {0, 1} \<and>
   own_lock_values False = {0, 2} \<and>
   CIRCBUF_HOSTIF_LOCK (\<not> CONFIG_HOSTIF_PCP c) \<notin> own_lock_values (CONFIG_HOSTIF_PCP c) \<and>
   (lock_byte (cpu_step k s) = lock_byte s \<or>
    lock_byte (cpu_step k s) \<in> own_lock_values (config_of k))"
proof -
  have alloc: "stores_only_own c w w'"
    if res: "circbuf_allocBuffer c pInstance_p pSize_p w = Some (r, inst', sz', w')"
    for r inst' sz' w'
  proof (cases "pCircBufArchInstance pInstance_p = NULL")
    case True
    obtain p w1 where m: "OPLK_MALLOC c (pSize_p + sizeof_tCircBufHeader c) w = (p, w1)"
      by (cases "OPLK_MALLOC c (pSize_p + sizeof_tCircBufHeader c) w") auto
    from allocBuffer_local_eq [OF True m] res have "w' = w1"
      by (simp split: if_splits)
    with OPLK_MALLOC_frame(2) [OF m] show ?thesis
      by (simp add: stores_only_own_def extends_trace_def new_events_def)
  next
    case False
    from False res obtain slot ret pBufBase bufSize where
      "hostifInstance_at (bufferId pInstance_p) = Some slot"
      "hostif_getBuf c (pCircBufArchInstance pInstance_p) slot = (ret, pBufBase, bufSize)"
      by (rule allocBuffer_shared_cases)
    from allocBuffer_shared_eq [OF False this, of pSize_p w] res show ?thesis
      by (auto simp: stores_only_own_def extends_trace_def new_events_def own_lock_values_def
          split: if_splits)
  qed
  have lock: "stores_only_own c w w'" if "circbuf_lock c pInstance_p w = Some w'" for w'
    using lock_events [OF that]
    by (auto simp: stores_only_own_def own_lock_values_def)
  have body: "stores_only_own c w (snd (lock_body c a w))"
    by (cases "mem w a = CIRCBUF_HOSTIF_UNLOCK")
      (simp_all add: lock_body_unlock lock_body_other stores_only_own_def extends_trace_def
        new_events_def own_lock_values_def)
  have unlock: "stores_only_own c w (circbuf_unlock c pInstance_p w)"
    by (simp add: unlock_eq stores_only_own_def extends_trace_def new_events_def
        own_lock_values_def)
  have conn: "mmio w' = mmio w"
    if "circbuf_connectBuffer c pInstance_p w = Some (r, inst', w')" for r inst' w'
    using that
    by (auto simp: circbuf_connectBuffer_def Let_def split: if_splits option.splits prod.splits)
  have free: "mmio (snd (circbuf_freeBuffer pInstance_p w)) = mmio w"
    by (simp add: circbuf_freeBuffer_def OPLK_FREE_def)
  have vals: "own_lock_values True = {0, 1}" "own_lock_values False = {0, 2}"
    by (simp_all add: own_lock_values_def CIRCBUF_HOSTIF_LOCK_def CIRCBUF_HOSTIF_UNLOCK_def)
  have other: "CIRCBUF_HOSTIF_LOCK (\<not> CONFIG_HOSTIF_PCP c) \<notin> own_lock_values (CONFIG_HOSTIF_PCP c)"
    by (simp add: own_lock_values_def CIRCBUF_HOSTIF_LOCK_def CIRCBUF_HOSTIF_UNLOCK_def)
  have step: "lock_byte (cpu_step k s) = lock_byte s \<or>
              lock_byte (cpu_step k s) \<in> own_lock_values (config_of k)"
    by (cases k; cases "pc (pcp_regs s)"; cases "pc (host_regs s)")
      (simp_all add: cpu_step_def thread_step_def own_lock_values_def)
  from alloc lock body unlock conn free vals other step show ?thesis by blast
qed

theorem lock_byte_write_invariant_witness:
  "(\<exists>r inst' sz' w'.
      circbuf_allocBuffer ex_collab ex_shared 100 ex_world = Some (r, inst', sz', w') \<and>
      r = kCircBufOk \<and> written_values (new_events ex_world w') = [0] \<and>
      stores_only_own ex_collab ex_world w') \<and>
   (\<exists>w'. circbuf_lock ex_collab ex_shared_ready ex_world_unlocked = Some w' \<and>
      written_values (new_events ex_world_unlocked w') = [1] \<and>
      stores_only_own ex_collab ex_world_unlocked w')"
proof -
  have slot: "hostifInstance_at (bufferId ex_shared) = Some kHostifInstIdU2KQueue"
    by (simp add: hostifInstance_at_def ex_shared_def NR_OF_CIRC_BUFFERS_def hostifInstance_def)
  have arch: "pCircBufArchInstance ex_shared \<noteq> NULL"
    by (simp add: ex_shared_def NULL_def)
  have buf: "hostif_getBuf ex_collab (pCircBufArchInstance ex_shared) kHostifInstIdU2KQueue
             = (kHostifSuccessful, 0x10000800, 1024)"
    by (simp add: ex_collab_def)
  have a: "circbuf_allocBuffer ex_collab ex_shared 100 ex_world =
    Some (kCircBufOk,
          ex_shared\<lparr>pCircBufHeader := 0x10000800 + offsetof_circBufHeader,
                    pCircBuf := 0x10000800 + sizeof_tCircBufHostiBuffer ex_collab\<rparr>,
          100 - sizeof_tCircBufHostiBuffer ex_collab,
          ex_world\<lparr>mem := (mem ex_world)(0x10000800 := CIRCBUF_HOSTIF_UNLOCK),
                   mmio := mmio ex_world @ [Wr 0x10000800 CIRCBUF_HOSTIF_UNLOCK]\<rparr>)"
    by (simp add: allocBuffer_shared_eq [OF arch slot buf])
  have arch': "pCircBufArchInstance ex_shared_ready \<noteq> NULL"
    by (simp add: ex_shared_ready_def ex_shared_def NULL_def)
  have free: "mem (target_enableGlobalInterrupt False ex_world_unlocked)
                (GET_QUEUE_BUF_BASE (pCircBufHeader ex_shared_ready)) = CIRCBUF_HOSTIF_UNLOCK"
    by (simp add: target_enableGlobalInterrupt_def ex_world_unlocked_def ex_world_def
        ex_shared_ready_def ex_shared_def GET_QUEUE_BUF_BASE_def offsetof_circBufHeader_def
        CIRCBUF_HOSTIF_UNLOCK_def)
  have l: "\<exists>w'. circbuf_lock ex_collab ex_shared_ready ex_world_unlocked = Some w' \<and>
      written_values (new_events ex_world_unlocked w') = [1]"
    using arch' lock_loop_free [OF free, of ex_collab]
    by (simp add: circbuf_lock_def new_events_def target_enableGlobalInterrupt_def
        CIRCBUF_HOSTIF_LOCK_def ex_collab_def)
  from a l
    lock_byte_write_invariant [of ex_collab ex_shared 100 ex_world]
    lock_byte_write_invariant [of ex_collab ex_shared_ready _ ex_world_unlocked]
  show ?thesis
    by (auto simp: new_events_def CIRCBUF_HOSTIF_UNLOCK_def)
qed

subsection \<open>Allocation of a shared buffer\<close>

text \<open>
  C4. For a shared instance and a requested size \<open>pSize_p\<close>, \<^verbatim>\<open>circbuf_allocBuffer\<close> returns
  \<^verbatim>\<open>kCircBufNoResource\<close> exactly when \<^verbatim>\<open>hostif_getBuf\<close> does not return
  \<^verbatim>\<open>kHostifSuccessful\<close> or the requested size exceeds the capacity it reports. In both
  cases the instance (its header and payload pointers), \<^verbatim>\<open>*pSize_p\<close> and the whole
  machine state, the shared window and its lock byte included, are as before the call.
\<close>

theorem circbuf_allocBuffer_shared_failure:
  assumes "pCircBufArchInstance pInstance_p \<noteq> NULL"
    and "hostifInstance_at (bufferId pInstance_p) = Some slot"
    and "hostif_getBuf c (pCircBufArchInstance pInstance_p) slot = (ret, pBufBase, bufSize)"
  shows "\<exists>r inst' sz' w'.
           circbuf_allocBuffer c pInstance_p pSize_p w = Some (r, inst', sz', w') \<and>
           (r = kCircBufNoResource \<longleftrightarrow> ret \<noteq> kHostifSuccessful \<or> pSize_p > bufSize) \<and>
           (r = kCircBufNoResource \<longrightarrow> inst' = pInstance_p \<and> sz' = pSize_p \<and> w' = w)"
  by (simp add: allocBuffer_shared_eq [OF assms])

theorem circbuf_allocBuffer_shared_failure_witness:
  "pCircBufArchInstance ex_shared \<noteq> NULL \<and>
   hostifInstance_at (bufferId ex_shared) = Some kHostifInstIdU2KQueue \<and>
   hostif_getBuf ex_collab (pCircBufArchInstance ex_shared) kHostifInstIdU2KQueue
     = (kHostifSuccessful, 0x10000800, 1024) \<and>
   (1024 :: UINT) < 2000 \<and>
   circbuf_allocBuffer ex_collab ex_shared 2000 ex_world
     = Some (kCircBufNoResource, ex_shared, 2000, ex_world)"
proof -
  have arch: "pCircBufArchInstance ex_shared \<noteq> NULL"
    by (simp add: ex_shared_def NULL_def)
  have slot: "hostifInstance_at (bufferId ex_shared) = Some kHostifInstIdU2KQueue"
    by (simp add: hostifInstance_at_def ex_shared_def NR_OF_CIRC_BUFFERS_def hostifInstance_def)
  have buf: "hostif_getBuf ex_collab (pCircBufArchInstance ex_shared) kHostifInstIdU2KQueue
             = (kHostifSuccessful, 0x10000800, 1024)"
    by (simp add: ex_collab_def)
  have big: "(1024 :: UINT) < 2000"
    by simp
  from circbuf_allocBuffer_shared_failure [OF arch slot buf, of 2000 ex_world] big
  have "circbuf_allocBuffer ex_collab ex_shared 2000 ex_world
          = Some (kCircBufNoResource, ex_shared, 2000, ex_world)"
    by auto
  with arch slot buf big show ?thesis by blast
qed

text \<open>
  C5. A shared allocation that succeeds wires the header pointer to the base plus 4, the
  payload pointer to the base plus the size of the envelope, stores \<^verbatim>\<open>UNLOCK\<close> into the
  lock byte at the base and returns the requested size less the envelope in \<^verbatim>\<open>*pSize_p\<close>;
  the claim adds that the payload region of that size lies within the capacity. The
  subtraction is made in \<^verbatim>\<open>size_t\<close> after the only check, \<^verbatim>\<open>size > bufSize\<close>: a request
  smaller than the envelope passes the check and wraps around. With an envelope of 24
  bytes and a window of 1024 bytes, a request of 8 bytes succeeds and returns a size of
  \<open>2\<^sup>3\<^sup>2 - 16\<close> bytes, far beyond the window.
\<close>

theorem circbuf_allocBuffer_shared_small_request:
  "circbuf_allocBuffer ex_collab ex_shared 8 ex_world =
     Some (kCircBufOk,
           ex_shared\<lparr>pCircBufHeader := 0x10000804, pCircBuf := 0x10000818\<rparr>,
           0xFFFFFFF0,
           ex_world\<lparr>mem := (mem ex_world)(0x10000800 := 0), mmio := [Wr 0x10000800 0]\<rparr>) \<and>
   hostif_getBuf ex_collab (pCircBufArchInstance ex_shared) kHostifInstIdU2KQueue
     = (kHostifSuccessful, 0x10000800, 1024) \<and>
   unat (sizeof_tCircBufHostiBuffer ex_collab) + unat (0xFFFFFFF0 :: size_t) > 1024"
proof -
  have arch: "pCircBufArchInstance ex_shared \<noteq> NULL"
    by (simp add: ex_shared_def NULL_def)
  have slot: "hostifInstance_at (bufferId ex_shared) = Some kHostifInstIdU2KQueue"
    by (simp add: hostifInstance_at_def ex_shared_def NR_OF_CIRC_BUFFERS_def hostifInstance_def)
  have buf: "hostif_getBuf ex_collab (pCircBufArchInstance ex_shared) kHostifInstIdU2KQueue
             = (kHostifSuccessful, 0x10000800, 1024)"
    by (simp add: ex_collab_def)
  have env: "sizeof_tCircBufHostiBuffer ex_collab = 24"
    by (simp add: sizeof_tCircBufHostiBuffer_def ex_collab_def)
  have "circbuf_allocBuffer ex_collab ex_shared 8 ex_world =
     Some (kCircBufOk,
           ex_shared\<lparr>pCircBufHeader := 0x10000804, pCircBuf := 0x10000818\<rparr>,
           0xFFFFFFF0,
           ex_world\<lparr>mem := (mem ex_world)(0x10000800 := 0), mmio := [Wr 0x10000800 0]\<rparr>)"
    by (simp add: allocBuffer_shared_eq [OF arch slot buf] env
        offsetof_circBufHeader_def CIRCBUF_HOSTIF_UNLOCK_def ex_world_def)
  with buf env show ?thesis by simp
qed

text \<open>
  What holds of every successful shared allocation, and the bound on the payload region
  for a request that is at least the envelope.
\<close>

lemma allocBuffer_shared_success:
  assumes "pCircBufArchInstance pInstance_p \<noteq> NULL"
    and "hostifInstance_at (bufferId pInstance_p) = Some slot"
    and "hostif_getBuf c (pCircBufArchInstance pInstance_p) slot = (ret, pBufBase, bufSize)"
    and "circbuf_allocBuffer c pInstance_p pSize_p w = Some (kCircBufOk, inst', sz', w')"
  shows "pCircBufHeader inst' = pBufBase + 4"
    and "pCircBuf inst' = pBufBase + sizeof_tCircBufHostiBuffer c"
    and "mem w' (pBufBase + offsetof_lock) = CIRCBUF_HOSTIF_UNLOCK"
    and "new_events w w' = [Wr (pBufBase + offsetof_lock) CIRCBUF_HOSTIF_UNLOCK]"
    and "sz' = pSize_p - sizeof_tCircBufHostiBuffer c"
    and "pSize_p \<le> bufSize"
    and "sizeof_tCircBufHostiBuffer c \<le> pSize_p \<Longrightarrow>
         unat (sizeof_tCircBufHostiBuffer c) + unat sz' \<le> unat bufSize"
proof -
  from assms(4) have eq: "ret = kHostifSuccessful" "\<not> pSize_p > bufSize"
    "inst' = pInstance_p\<lparr>pCircBufHeader := pBufBase + offsetof_circBufHeader,
                          pCircBuf := pBufBase + sizeof_tCircBufHostiBuffer c\<rparr>"
    "sz' = pSize_p - sizeof_tCircBufHostiBuffer c"
    "w' = w\<lparr>mem := (mem w)(pBufBase := CIRCBUF_HOSTIF_UNLOCK),
            mmio := mmio w @ [Wr pBufBase CIRCBUF_HOSTIF_UNLOCK]\<rparr>"
    unfolding allocBuffer_shared_eq [OF assms(1-3)]
    by (simp_all split: if_splits)
  from eq show "pCircBufHeader inst' = pBufBase + 4"
    by (simp add: offsetof_circBufHeader_def)
  from eq show "pCircBuf inst' = pBufBase + sizeof_tCircBufHostiBuffer c"
    by simp
  from eq show "mem w' (pBufBase + offsetof_lock) = CIRCBUF_HOSTIF_UNLOCK"
    by (simp add: offsetof_lock_def)
  from eq show "new_events w w' = [Wr (pBufBase + offsetof_lock) CIRCBUF_HOSTIF_UNLOCK]"
    by (simp add: offsetof_lock_def new_events_def)
  from eq show "sz' = pSize_p - sizeof_tCircBufHostiBuffer c"
    by simp
  from eq show le: "pSize_p \<le> bufSize"
    by simp
  show "unat (sizeof_tCircBufHostiBuffer c) + unat sz' \<le> unat bufSize"
    if "sizeof_tCircBufHostiBuffer c \<le> pSize_p"
  proof -
    from that have "unat sz' = unat pSize_p - unat (sizeof_tCircBufHostiBuffer c)"
      unfolding eq(4) by (rule unat_sub)
    moreover from that have "unat (sizeof_tCircBufHostiBuffer c) \<le> unat pSize_p"
      by (simp add: word_le_nat_alt)
    moreover from le have "unat pSize_p \<le> unat bufSize"
      by (simp add: word_le_nat_alt)
    ultimately show ?thesis by simp
  qed
qed

subsection \<open>Allocation and release of a local buffer\<close>

text \<open>
  C6, as the code has it. For a local-only instance (\<open>pCircBufArchInstance\<close> is \<open>NULL\<close>)
  and a request for which the requested size plus the size of the header is a
  \<^verbatim>\<open>size_t\<close>, \<^verbatim>\<open>circbuf_allocBuffer\<close> asks the heap for that many bytes and returns
  \<^verbatim>\<open>kCircBufNoResource\<close> exactly when the heap returns \<open>NULL\<close>. On success the block is
  live with the requested size plus the size of the header, the header pointer is the
  block's start, the payload pointer is the header pointer plus the size of the header,
  and \<^verbatim>\<open>*pSize_p\<close> is the requested size. Memory is as before the call and nothing is
  stored through \<^verbatim>\<open>HOSTIF_WR8\<close>: the function does not initialise the header. Nothing
  is said of a request whose sum with the header exceeds \<^verbatim>\<open>size_t\<close>.
\<close>

theorem circbuf_allocBuffer_local:
  assumes "pCircBufArchInstance pInstance_p = NULL"
    and "unat pSize_p + unat (sizeof_tCircBufHeader c) < 2 ^ 32"
  shows "\<exists>r inst' w' request.
           circbuf_allocBuffer c pInstance_p pSize_p w = Some (r, inst', pSize_p, w') \<and>
           unat request = unat pSize_p + unat (sizeof_tCircBufHeader c) \<and>
           pCircBufHeader inst' = malloc_choice c (heap_live w) request \<and>
           (r = kCircBufNoResource \<longleftrightarrow> malloc_choice c (heap_live w) request = NULL) \<and>
           (r = kCircBufOk \<longrightarrow>
              heap_live w' = (pCircBufHeader inst', request) # heap_live w \<and>
              pCircBuf inst' = pCircBufHeader inst' + sizeof_tCircBufHeader c) \<and>
           (r = kCircBufNoResource \<longrightarrow> heap_live w' = heap_live w) \<and>
           pCircBufArchInstance inst' = NULL \<and>
           bufferId inst' = bufferId pInstance_p \<and>
           mem w' = mem w \<and> mmio w' = mmio w"
proof -
  let ?request = "pSize_p + sizeof_tCircBufHeader c"
  obtain p w1 where m: "OPLK_MALLOC c ?request w = (p, w1)"
    by (cases "OPLK_MALLOC c ?request w") auto
  have fit: "unat ?request = unat pSize_p + unat (sizeof_tCircBufHeader c)"
    using assms(2) unat_add_lem [of pSize_p "sizeof_tCircBufHeader c"] by simp
  have "circbuf_allocBuffer c pInstance_p pSize_p w =
          Some (if p = NULL then kCircBufNoResource else kCircBufOk,
                if p = NULL then pInstance_p\<lparr>pCircBufHeader := NULL\<rparr>
                else pInstance_p\<lparr>pCircBufHeader := p,
                                 pCircBuf := p + sizeof_tCircBufHeader c\<rparr>,
                pSize_p, w1) \<and>
        unat ?request = unat pSize_p + unat (sizeof_tCircBufHeader c) \<and>
        pCircBufHeader (if p = NULL then pInstance_p\<lparr>pCircBufHeader := NULL\<rparr>
                else pInstance_p\<lparr>pCircBufHeader := p,
                                 pCircBuf := p + sizeof_tCircBufHeader c\<rparr>)
          = malloc_choice c (heap_live w) ?request"
    using allocBuffer_local_eq [OF assms(1) m] OPLK_MALLOC_frame(5) [OF m] fit
    by simp
  with OPLK_MALLOC_frame [OF m] assms(1) show ?thesis
    by (cases "p = NULL") auto
qed

theorem circbuf_allocBuffer_local_witness:
  "pCircBufArchInstance ex_local = NULL \<and>
   unat (16 :: size_t) + unat (sizeof_tCircBufHeader ex_collab) < 2 ^ 32 \<and>
   (\<exists>inst' w'.
      circbuf_allocBuffer ex_collab ex_local 16 ex_world = Some (kCircBufOk, inst', 16, w') \<and>
      pCircBufHeader inst' = 0x2000 \<and> pCircBuf inst' = 0x2014 \<and>
      heap_live w' = [(0x2000, 36)] \<and> mem w' = mem ex_world \<and> mmio w' = [])"
proof -
  have loc: "pCircBufArchInstance ex_local = NULL"
    by (simp add: ex_local_def NULL_def)
  have fit: "unat (16 :: size_t) + unat (sizeof_tCircBufHeader ex_collab) < 2 ^ 32"
    by (simp add: ex_collab_def)
  have p: "malloc_choice ex_collab (heap_live ex_world) x = 0x2000" for x
    by (simp add: ex_collab_def ex_world_def)
  have h: "sizeof_tCircBufHeader ex_collab = 20" "heap_live ex_world = []" "mmio ex_world = []"
    by (simp_all add: ex_collab_def ex_world_def)
  from circbuf_allocBuffer_local [OF loc fit, of ex_world]
  obtain r inst' w' request where
    res: "circbuf_allocBuffer ex_collab ex_local 16 ex_world = Some (r, inst', 16, w')"
    and req: "unat request = unat (16 :: size_t) + unat (sizeof_tCircBufHeader ex_collab)"
    and hdr: "pCircBufHeader inst' = malloc_choice ex_collab (heap_live ex_world) request"
    and nores: "r = kCircBufNoResource \<longleftrightarrow>
                  malloc_choice ex_collab (heap_live ex_world) request = NULL"
    and ok: "r = kCircBufOk \<longrightarrow>
              heap_live w' = (pCircBufHeader inst', request) # heap_live ex_world \<and>
              pCircBuf inst' = pCircBufHeader inst' + sizeof_tCircBufHeader ex_collab"
    and frame: "mem w' = mem ex_world" "mmio w' = mmio ex_world"
    by blast
  from req h have "unat request = unat (36 :: size_t)"
    by simp
  then have request: "request = 36"
    by (rule word_unat_eq_iff [THEN iffD2])
  from nores have r: "r = kCircBufOk"
    unfolding p by (cases r) (simp_all add: NULL_def)
  from hdr have hdr': "pCircBufHeader inst' = 0x2000"
    unfolding p .
  from res r hdr' ok frame h request loc fit show ?thesis
    by simp
qed

text \<open>
  The claim as the specification words it has the function initialise the header, and
  allocate the requested size plus the header for every request. After a successful
  local allocation of 16 bytes the bytes of the block are what the memory held before,
  whatever that was: the header is not initialised. And for a request of \<open>2\<^sup>3\<^sup>2 - 16\<close>
  bytes with a header of 20 the sum wraps around in \<^verbatim>\<open>size_t\<close>: the call succeeds with a
  block of 4 bytes, \<^verbatim>\<open>*pSize_p\<close> unchanged and the payload pointer 16 bytes past the
  block's end.
\<close>

theorem circbuf_allocBuffer_local_counterexample:
  "fst (the (circbuf_allocBuffer ex_collab ex_local 16 ex_world)) = kCircBufOk \<and>
   pCircBufHeader (fst (snd (the (circbuf_allocBuffer ex_collab ex_local 16 ex_world))))
     = 0x2000 \<and>
   mem (snd (snd (snd (the (circbuf_allocBuffer ex_collab ex_local 16 ex_world))))) 0x2000
     = 0xAA \<and>
   mem (snd (snd (snd (the (circbuf_allocBuffer ex_collab ex_local 16
          (ex_world\<lparr>mem := (\<lambda>a. 0x55)\<rparr>)))))) 0x2000
     = 0x55 \<and>
   mmio (snd (snd (snd (the (circbuf_allocBuffer ex_collab ex_local 16 ex_world))))) = [] \<and>
   circbuf_allocBuffer ex_collab ex_local 0xFFFFFFF0 ex_world =
     Some (kCircBufOk,
           ex_local\<lparr>pCircBufHeader := 0x2000, pCircBuf := 0x2014\<rparr>,
           0xFFFFFFF0,
           ex_world\<lparr>heap_live := [(0x2000, 4)]\<rparr>)"
  by (simp add: circbuf_allocBuffer_def OPLK_MALLOC_def ex_collab_def ex_local_def
      ex_world_def NULL_def Let_def)

text \<open>
  C10, as the code has it. On a local-only instance \<^verbatim>\<open>circbuf_freeBuffer\<close> passes the
  stored header pointer to \<^verbatim>\<open>OPLK_FREE\<close> and leaves the instance as it is: the pointer
  is not set to \<open>NULL\<close>. A second call passes the same pointer to \<^verbatim>\<open>OPLK_FREE\<close> again;
  when the first call released a live block, the second is a free of a block that is no
  longer live. Keeping to one call is left to the caller. On a shared instance
  \<^verbatim>\<open>circbuf_freeBuffer\<close> changes nothing.
\<close>

theorem circbuf_freeBuffer_twice:
  "(pCircBufArchInstance pInstance_p \<noteq> NULL \<longrightarrow>
      circbuf_freeBuffer pInstance_p w = (pInstance_p, w)) \<and>
   (pCircBufArchInstance pInstance_p = NULL \<longrightarrow>
      circbuf_freeBuffer pInstance_p w = (pInstance_p, OPLK_FREE (pCircBufHeader pInstance_p) w) \<and>
      circbuf_freeBuffer (fst (circbuf_freeBuffer pInstance_p w))
                         (snd (circbuf_freeBuffer pInstance_p w))
        = (pInstance_p,
           OPLK_FREE (pCircBufHeader pInstance_p) (OPLK_FREE (pCircBufHeader pInstance_p) w)) \<and>
      (pCircBufHeader pInstance_p \<in> fst ` set (heap_live w) \<longrightarrow>
       pCircBufHeader pInstance_p \<noteq> NULL \<longrightarrow>
         heap_bad_free (snd (circbuf_freeBuffer pInstance_p w)) = heap_bad_free w \<and>
         heap_bad_free (snd (circbuf_freeBuffer (fst (circbuf_freeBuffer pInstance_p w))
                                                (snd (circbuf_freeBuffer pInstance_p w))))
           = heap_bad_free w @ [pCircBufHeader pInstance_p]))"
  by (auto simp: circbuf_freeBuffer_def OPLK_FREE_def)

theorem circbuf_freeBuffer_twice_witness:
  "pCircBufArchInstance ex_local_ready = NULL \<and>
   pCircBufHeader ex_local_ready \<in> fst ` set (heap_live ex_world_allocated) \<and>
   pCircBufHeader ex_local_ready \<noteq> NULL \<and>
   circbuf_freeBuffer ex_local_ready ex_world_allocated = (ex_local_ready, ex_world) \<and>
   circbuf_freeBuffer ex_local_ready ex_world
     = (ex_local_ready, ex_world\<lparr>heap_bad_free := [0x2000]\<rparr>) \<and>
   pCircBufArchInstance ex_shared_ready \<noteq> NULL \<and>
   circbuf_freeBuffer ex_shared_ready ex_world = (ex_shared_ready, ex_world)"
proof -
  have loc: "pCircBufArchInstance ex_local_ready = NULL"
    by (simp add: ex_local_ready_def ex_local_def NULL_def)
  have live: "pCircBufHeader ex_local_ready \<in> fst ` set (heap_live ex_world_allocated)"
    by (simp add: ex_local_ready_def ex_world_allocated_def)
  have nonnull: "pCircBufHeader ex_local_ready \<noteq> NULL"
    by (simp add: ex_local_ready_def NULL_def)
  have sh: "pCircBufArchInstance ex_shared_ready \<noteq> NULL"
    by (simp add: ex_shared_ready_def ex_shared_def NULL_def)
  have f1: "OPLK_FREE (pCircBufHeader ex_local_ready) ex_world_allocated = ex_world"
    by (simp add: OPLK_FREE_def ex_local_ready_def ex_world_allocated_def ex_world_def NULL_def)
  have f2: "OPLK_FREE (pCircBufHeader ex_local_ready) ex_world
            = ex_world\<lparr>heap_bad_free := [0x2000]\<rparr>"
    by (simp add: OPLK_FREE_def ex_local_ready_def ex_world_def NULL_def)
  from circbuf_freeBuffer_twice [of ex_local_ready ex_world_allocated]
       circbuf_freeBuffer_twice [of ex_local_ready ex_world]
       circbuf_freeBuffer_twice [of ex_shared_ready ex_world]
       loc live nonnull sh f1 f2
  show ?thesis by simp
qed

text \<open>
  The claim as the specification words it has the first call set the stored header
  pointer to \<open>NULL\<close>, so that the second call releases nothing. After the first call the
  stored pointer is still the block's address, and the second call frees it again.
\<close>

theorem circbuf_freeBuffer_counterexample:
  "pCircBufHeader (fst (circbuf_freeBuffer ex_local_ready ex_world_allocated)) = 0x2000 \<and>
   heap_live (snd (circbuf_freeBuffer ex_local_ready ex_world_allocated)) = [] \<and>
   heap_bad_free
     (snd (circbuf_freeBuffer (fst (circbuf_freeBuffer ex_local_ready ex_world_allocated))
                              (snd (circbuf_freeBuffer ex_local_ready ex_world_allocated))))
     = [0x2000]"
  by (simp add: circbuf_freeBuffer_def OPLK_FREE_def ex_local_ready_def ex_local_def
      ex_world_allocated_def ex_world_def NULL_def)

subsection \<open>Creation and connection\<close>

text \<open>
  C7. For an id below \<^verbatim>\<open>NR_OF_CIRC_BUFFERS\<close>, \<^verbatim>\<open>circbuf_createInstance\<close> returns \<open>NULL\<close>
  exactly when the registry maps the id to a shared slot (its entry is not
  \<^verbatim>\<open>kHostifInstIdInvalid\<close>) and \<^verbatim>\<open>hostif_getInstance(0)\<close> is \<open>NULL\<close>; the table of instances
  is then as before. Otherwise it returns the entry of the id, with \<open>bufferId\<close> the id
  and with \<open>pCircBufArchInstance\<close> \<open>NULL\<close> exactly when the registry entry is
  \<^verbatim>\<open>kHostifInstIdInvalid\<close>; the other entries are as before.
\<close>

theorem circbuf_createInstance_result:
  assumes "unat id_p < NR_OF_CIRC_BUFFERS"
    and "length instance_l = NR_OF_CIRC_BUFFERS"
  shows "\<exists>r l'.
           circbuf_createInstance c id_p instance_l = Some (r, l') \<and>
           (r = None \<longleftrightarrow>
              hostifInstance ! unat id_p \<noteq> kHostifInstIdInvalid \<and> hostif_getInstance c 0 = NULL) \<and>
           (r = None \<longrightarrow> l' = instance_l) \<and>
           (r \<noteq> None \<longrightarrow>
              r = Some (unat id_p) \<and>
              length l' = NR_OF_CIRC_BUFFERS \<and>
              bufferId (l' ! unat id_p) = id_p \<and>
              (pCircBufArchInstance (l' ! unat id_p) = NULL \<longleftrightarrow>
                 hostifInstance ! unat id_p = kHostifInstIdInvalid) \<and>
              (hostifInstance ! unat id_p \<noteq> kHostifInstIdInvalid \<longrightarrow>
                 pCircBufArchInstance (l' ! unat id_p) = hostif_getInstance c 0) \<and>
              (\<forall>j. j \<noteq> unat id_p \<longrightarrow> l' ! j = instance_l ! j))"
  using assms
  by (auto simp: circbuf_createInstance_def hostifInstance_at_def Let_def)

theorem circbuf_createInstance_result_witness:
  "unat (0 :: u8) < NR_OF_CIRC_BUFFERS \<and>
   unat (2 :: u8) < NR_OF_CIRC_BUFFERS \<and>
   length ex_instance_l = NR_OF_CIRC_BUFFERS \<and>
   hostifInstance ! unat (0 :: u8) \<noteq> kHostifInstIdInvalid \<and>
   hostifInstance ! unat (2 :: u8) = kHostifInstIdInvalid \<and>
   hostif_getInstance ex_collab_absent 0 = NULL \<and>
   hostif_getInstance ex_collab 0 \<noteq> NULL \<and>
   circbuf_createInstance ex_collab_absent 0 ex_instance_l = Some (None, ex_instance_l) \<and>
   (\<exists>l'. circbuf_createInstance ex_collab 0 ex_instance_l = Some (Some 0, l') \<and>
      bufferId (l' ! 0) = 0 \<and> pCircBufArchInstance (l' ! 0) = 0x10000000) \<and>
   (\<exists>l'. circbuf_createInstance ex_collab_absent 2 ex_instance_l = Some (Some 2, l') \<and>
      bufferId (l' ! 2) = 2 \<and> pCircBufArchInstance (l' ! 2) = NULL)"
proof -
  have id0: "unat (0 :: u8) < NR_OF_CIRC_BUFFERS" and id2: "unat (2 :: u8) < NR_OF_CIRC_BUFFERS"
    by (simp_all add: NR_OF_CIRC_BUFFERS_def hostifInstance_def)
  have len: "length ex_instance_l = NR_OF_CIRC_BUFFERS"
    by (simp add: ex_instance_l_def NR_OF_CIRC_BUFFERS_def hostifInstance_def)
  have t0: "hostifInstance ! unat (0 :: u8) \<noteq> kHostifInstIdInvalid"
    and t2: "hostifInstance ! unat (2 :: u8) = kHostifInstIdInvalid"
    by (simp_all add: hostifInstance_def)
  have absent: "hostif_getInstance ex_collab_absent 0 = NULL"
    and present: "hostif_getInstance ex_collab 0 \<noteq> NULL"
    and handle: "hostif_getInstance ex_collab 0 = 0x10000000"
    by (simp_all add: ex_collab_absent_def ex_collab_def NULL_def)
  from circbuf_createInstance_result [OF id0 len, of ex_collab_absent] t0 absent
  have a: "circbuf_createInstance ex_collab_absent 0 ex_instance_l = Some (None, ex_instance_l)"
    by auto
  from circbuf_createInstance_result [OF id0 len, of ex_collab] t0 present handle
  have b: "\<exists>l'. circbuf_createInstance ex_collab 0 ex_instance_l = Some (Some 0, l') \<and>
      bufferId (l' ! 0) = 0 \<and> pCircBufArchInstance (l' ! 0) = 0x10000000"
    by auto
  from circbuf_createInstance_result [OF id2 len, of ex_collab_absent] t2
  have c: "\<exists>l'. circbuf_createInstance ex_collab_absent 2 ex_instance_l = Some (Some 2, l') \<and>
      bufferId (l' ! 2) = 2 \<and> pCircBufArchInstance (l' ! 2) = NULL"
    by auto
  from id0 id2 len t0 t2 absent present a b c show ?thesis
    by blast
qed

text \<open>
  C8. \<^verbatim>\<open>circbuf_connectBuffer\<close> leaves the machine state as it is: it stores nothing into
  the shared window, neither the lock byte nor a field of the ring header, and nothing
  is traced. On a local-only instance it changes nothing and returns \<^verbatim>\<open>kCircBufOk\<close>. On
  a shared instance it asks \<^verbatim>\<open>hostif_getBuf\<close> for the base and returns
  \<^verbatim>\<open>kCircBufNoResource\<close>, with the instance unchanged, exactly when that call fails;
  otherwise it sets the header pointer to the base plus the header's offset and the
  payload pointer to the base plus the size of the envelope, and nothing else of the
  instance.
\<close>

theorem circbuf_connectBuffer_frame:
  "(\<forall>r inst' w'.
      circbuf_connectBuffer c pInstance_p w = Some (r, inst', w') \<longrightarrow>
      w' = w \<and>
      pCircBufArchInstance inst' = pCircBufArchInstance pInstance_p \<and>
      bufferId inst' = bufferId pInstance_p) \<and>
   (pCircBufArchInstance pInstance_p = NULL \<longrightarrow>
      circbuf_connectBuffer c pInstance_p w = Some (kCircBufOk, pInstance_p, w)) \<and>
   (pCircBufArchInstance pInstance_p \<noteq> NULL \<longrightarrow>
    hostifInstance_at (bufferId pInstance_p) = Some slot \<longrightarrow>
    hostif_getBuf c (pCircBufArchInstance pInstance_p) slot = (ret, pBufBase, bufSize) \<longrightarrow>
      (\<exists>r inst'.
         circbuf_connectBuffer c pInstance_p w = Some (r, inst', w) \<and>
         (r = kCircBufNoResource \<longleftrightarrow> ret \<noteq> kHostifSuccessful) \<and>
         (r = kCircBufNoResource \<longrightarrow> inst' = pInstance_p) \<and>
         (r = kCircBufOk \<longrightarrow>
            inst' = pInstance_p\<lparr>pCircBufHeader := pBufBase + offsetof_circBufHeader,
                                pCircBuf := pBufBase + sizeof_tCircBufHostiBuffer c\<rparr>)))"
proof -
  have frame: "w' = w \<and>
      pCircBufArchInstance inst' = pCircBufArchInstance pInstance_p \<and>
      bufferId inst' = bufferId pInstance_p"
    if "circbuf_connectBuffer c pInstance_p w = Some (r, inst', w')" for r inst' w'
    using that
    by (auto simp: circbuf_connectBuffer_def Let_def split: if_splits option.splits prod.splits)
  have local: "circbuf_connectBuffer c pInstance_p w = Some (kCircBufOk, pInstance_p, w)"
    if "pCircBufArchInstance pInstance_p = NULL"
    using that by (simp add: circbuf_connectBuffer_def)
  have shared: "\<exists>r inst'.
         circbuf_connectBuffer c pInstance_p w = Some (r, inst', w) \<and>
         (r = kCircBufNoResource \<longleftrightarrow> ret \<noteq> kHostifSuccessful) \<and>
         (r = kCircBufNoResource \<longrightarrow> inst' = pInstance_p) \<and>
         (r = kCircBufOk \<longrightarrow>
            inst' = pInstance_p\<lparr>pCircBufHeader := pBufBase + offsetof_circBufHeader,
                                pCircBuf := pBufBase + sizeof_tCircBufHostiBuffer c\<rparr>)"
    if "pCircBufArchInstance pInstance_p \<noteq> NULL"
      and "hostifInstance_at (bufferId pInstance_p) = Some slot"
      and "hostif_getBuf c (pCircBufArchInstance pInstance_p) slot = (ret, pBufBase, bufSize)"
    by (simp add: connectBuffer_shared_eq [OF that])
  from frame local shared show ?thesis
    by blast
qed

theorem circbuf_connectBuffer_frame_witness:
  "pCircBufArchInstance ex_local = NULL \<and>
   circbuf_connectBuffer ex_collab ex_local ex_world = Some (kCircBufOk, ex_local, ex_world) \<and>
   pCircBufArchInstance ex_shared \<noteq> NULL \<and>
   hostifInstance_at (bufferId ex_shared) = Some kHostifInstIdU2KQueue \<and>
   hostif_getBuf ex_collab (pCircBufArchInstance ex_shared) kHostifInstIdU2KQueue
     = (kHostifSuccessful, 0x10000800, 1024) \<and>
   circbuf_connectBuffer ex_collab ex_shared ex_world
     = Some (kCircBufOk, ex_shared_ready, ex_world) \<and>
   hostif_getBuf ex_collab_absent (pCircBufArchInstance ex_shared) kHostifInstIdU2KQueue
     = (kHostifFailure 1, 0, 0) \<and>
   circbuf_connectBuffer ex_collab_absent ex_shared ex_world
     = Some (kCircBufNoResource, ex_shared, ex_world)"
proof -
  have loc: "pCircBufArchInstance ex_local = NULL"
    by (simp add: ex_local_def NULL_def)
  have arch: "pCircBufArchInstance ex_shared \<noteq> NULL"
    by (simp add: ex_shared_def NULL_def)
  have slot: "hostifInstance_at (bufferId ex_shared) = Some kHostifInstIdU2KQueue"
    by (simp add: hostifInstance_at_def ex_shared_def NR_OF_CIRC_BUFFERS_def hostifInstance_def)
  have buf: "hostif_getBuf ex_collab (pCircBufArchInstance ex_shared) kHostifInstIdU2KQueue
             = (kHostifSuccessful, 0x10000800, 1024)"
    by (simp add: ex_collab_def)
  have nobuf: "hostif_getBuf ex_collab_absent (pCircBufArchInstance ex_shared)
                 kHostifInstIdU2KQueue = (kHostifFailure 1, 0, 0)"
    by (simp add: ex_collab_absent_def)
  have ready: "ex_shared\<lparr>pCircBufHeader := 0x10000800 + offsetof_circBufHeader,
                        pCircBuf := 0x10000800 + sizeof_tCircBufHostiBuffer ex_collab\<rparr>
               = ex_shared_ready"
    by (simp add: ex_shared_ready_def offsetof_circBufHeader_def
        sizeof_tCircBufHostiBuffer_def ex_collab_def)
  note local_case =
    circbuf_connectBuffer_frame [of ex_collab ex_local ex_world, THEN conjunct2, THEN conjunct1]
  from local_case loc
  have a: "circbuf_connectBuffer ex_collab ex_local ex_world
           = Some (kCircBufOk, ex_local, ex_world)"
    by (rule mp)
  note shared_case =
    circbuf_connectBuffer_frame [THEN conjunct2, THEN conjunct2, rule_format]
  from shared_case [OF arch slot buf, of ex_world]
  obtain r inst' where
    res: "circbuf_connectBuffer ex_collab ex_shared ex_world = Some (r, inst', ex_world)"
    and nores: "r = kCircBufNoResource \<longleftrightarrow> kHostifSuccessful \<noteq> kHostifSuccessful"
    and ok: "r = kCircBufOk \<longrightarrow>
               inst' = ex_shared\<lparr>pCircBufHeader := 0x10000800 + offsetof_circBufHeader,
                                 pCircBuf := 0x10000800 + sizeof_tCircBufHostiBuffer ex_collab\<rparr>"
    by blast
  from nores have "r = kCircBufOk"
    by (cases r) simp_all
  with res ok ready
  have b: "circbuf_connectBuffer ex_collab ex_shared ex_world
           = Some (kCircBufOk, ex_shared_ready, ex_world)"
    by simp
  from shared_case [OF arch slot nobuf, of ex_world]
  obtain r' inst'' where
    res': "circbuf_connectBuffer ex_collab_absent ex_shared ex_world = Some (r', inst'', ex_world)"
    and nores': "r' = kCircBufNoResource \<longleftrightarrow> kHostifFailure 1 \<noteq> kHostifSuccessful"
    and same: "r' = kCircBufNoResource \<longrightarrow> inst'' = ex_shared"
    by blast
  from nores' have "r' = kCircBufNoResource"
    by simp
  with res' same
  have c: "circbuf_connectBuffer ex_collab_absent ex_shared ex_world
           = Some (kCircBufNoResource, ex_shared, ex_world)"
    by simp
  from loc arch slot buf nobuf a b c show ?thesis
    by (intro conjI)
qed

subsection \<open>From the header pointer back to the envelope\<close>

text \<open>
  C9. \<^verbatim>\<open>GET_QUEUE_BUF_BASE\<close> applied to the header pointer derived from an envelope base
  \<open>b\<close> (the base plus the offset of \<open>circBufHeader\<close>) is \<open>b\<close>, for every \<open>b\<close>. So, for a
  shared instance whose window \<^verbatim>\<open>hostif_getBuf\<close> reports at \<open>pBufBase\<close>: after a successful
  \<^verbatim>\<open>circbuf_allocBuffer\<close>, which stored \<^verbatim>\<open>UNLOCK\<close> at \<open>pBufBase\<close>, and after a successful
  \<^verbatim>\<open>circbuf_connectBuffer\<close>, the store of \<^verbatim>\<open>circbuf_unlock\<close> goes to \<open>pBufBase\<close>, and
  every pass through the loop of \<^verbatim>\<open>circbuf_lock\<close>, as every call of it that returns,
  accesses the byte at \<open>pBufBase\<close> and no other.
\<close>

theorem header_envelope_round_trip:
  "GET_QUEUE_BUF_BASE (b + offsetof_circBufHeader) = b \<and>
   (pCircBufArchInstance pInstance_p \<noteq> NULL \<longrightarrow>
    hostifInstance_at (bufferId pInstance_p) = Some slot \<longrightarrow>
    hostif_getBuf c (pCircBufArchInstance pInstance_p) slot = (ret, pBufBase, bufSize) \<longrightarrow>
      (\<forall>inst' sz' w'.
         circbuf_allocBuffer c pInstance_p pSize_p w = Some (kCircBufOk, inst', sz', w') \<longrightarrow>
         new_events w w' = [Wr (pBufBase + offsetof_lock) CIRCBUF_HOSTIF_UNLOCK] \<and>
         GET_QUEUE_BUF_BASE (pCircBufHeader inst') = pBufBase \<and>
         accesses_lock_at c inst' (pBufBase + offsetof_lock) w2) \<and>
      (\<forall>inst' w'.
         circbuf_connectBuffer c pInstance_p w = Some (kCircBufOk, inst', w') \<longrightarrow>
         GET_QUEUE_BUF_BASE (pCircBufHeader inst') = pBufBase \<and>
         accesses_lock_at c inst' (pBufBase + offsetof_lock) w2))"
proof -
  have rt: "GET_QUEUE_BUF_BASE (x + offsetof_circBufHeader) = x" for x
    by (simp add: GET_QUEUE_BUF_BASE_def)
  have acc: "accesses_lock_at c inst' (pBufBase + offsetof_lock) w2"
    if sh: "pCircBufArchInstance inst' \<noteq> NULL"
      and hdr: "pCircBufHeader inst' = pBufBase + offsetof_circBufHeader"
    for inst'
  proof -
    have base: "GET_QUEUE_BUF_BASE (pCircBufHeader inst') = pBufBase"
      unfolding hdr by (rule rt)
    have u: "new_events w2 (circbuf_unlock c inst' w2)
             = [Wr (pBufBase + offsetof_lock) CIRCBUF_HOSTIF_UNLOCK]"
      using sh by (simp add: unlock_eq base new_events_def offsetof_lock_def)
    have l: "new_events w2 w3 \<noteq> [] \<and>
             list_all (\<lambda>e. event_addr e = pBufBase + offsetof_lock) (new_events w2 w3)"
      if "circbuf_lock c inst' w2 = Some w3" for w3
    proof -
      from that sh
      have "lock_loop c pBufBase (target_enableGlobalInterrupt False w2) = Some w3"
        by (simp add: circbuf_lock_def base)
      from lock_loop_events [OF this] show ?thesis
        by (auto simp: new_events_def target_enableGlobalInterrupt_def offsetof_lock_def)
    qed
    have p: "new_events w2 (snd (lock_body c pBufBase w2)) \<noteq> [] \<and>
             list_all (\<lambda>e. event_addr e = pBufBase + offsetof_lock)
               (new_events w2 (snd (lock_body c pBufBase w2)))"
      by (cases "mem w2 pBufBase = CIRCBUF_HOSTIF_UNLOCK")
        (simp_all add: lock_body_unlock lock_body_other new_events_def offsetof_lock_def)
    from u p l show ?thesis
      by (simp add: accesses_lock_at_def base split: option.split)
  qed
  have alloc: "new_events w w' = [Wr (pBufBase + offsetof_lock) CIRCBUF_HOSTIF_UNLOCK] \<and>
         GET_QUEUE_BUF_BASE (pCircBufHeader inst') = pBufBase \<and>
         accesses_lock_at c inst' (pBufBase + offsetof_lock) w2"
    if sh: "pCircBufArchInstance pInstance_p \<noteq> NULL"
      and slot: "hostifInstance_at (bufferId pInstance_p) = Some slot"
      and buf: "hostif_getBuf c (pCircBufArchInstance pInstance_p) slot = (ret, pBufBase, bufSize)"
      and res: "circbuf_allocBuffer c pInstance_p pSize_p w = Some (kCircBufOk, inst', sz', w')"
    for inst' sz' w'
  proof -
    from res have i: "inst' = pInstance_p\<lparr>pCircBufHeader := pBufBase + offsetof_circBufHeader,
                          pCircBuf := pBufBase + sizeof_tCircBufHostiBuffer c\<rparr>"
      unfolding allocBuffer_shared_eq [OF sh slot buf]
      by (simp split: if_splits)
    from i sh have "accesses_lock_at c inst' (pBufBase + offsetof_lock) w2"
      by (intro acc) simp_all
    with allocBuffer_shared_success(4) [OF sh slot buf res] i rt show ?thesis
      by simp
  qed
  have conn: "GET_QUEUE_BUF_BASE (pCircBufHeader inst') = pBufBase \<and>
         accesses_lock_at c inst' (pBufBase + offsetof_lock) w2"
    if sh: "pCircBufArchInstance pInstance_p \<noteq> NULL"
      and slot: "hostifInstance_at (bufferId pInstance_p) = Some slot"
      and buf: "hostif_getBuf c (pCircBufArchInstance pInstance_p) slot = (ret, pBufBase, bufSize)"
      and res: "circbuf_connectBuffer c pInstance_p w = Some (kCircBufOk, inst', w')"
    for inst' w'
  proof -
    from res have i: "inst' = pInstance_p\<lparr>pCircBufHeader := pBufBase + offsetof_circBufHeader,
                          pCircBuf := pBufBase + sizeof_tCircBufHostiBuffer c\<rparr>"
      unfolding connectBuffer_shared_eq [OF sh slot buf]
      by (simp split: if_splits)
    from i sh have "accesses_lock_at c inst' (pBufBase + offsetof_lock) w2"
      by (intro acc) simp_all
    with i rt show ?thesis
      by simp
  qed
  from rt alloc conn show ?thesis
    by blast
qed

theorem header_envelope_round_trip_witness:
  "GET_QUEUE_BUF_BASE (0x10000800 + offsetof_circBufHeader) = 0x10000800 \<and>
   pCircBufArchInstance ex_shared \<noteq> NULL \<and>
   hostifInstance_at (bufferId ex_shared) = Some kHostifInstIdU2KQueue \<and>
   hostif_getBuf ex_collab (pCircBufArchInstance ex_shared) kHostifInstIdU2KQueue
     = (kHostifSuccessful, 0x10000800, 1024) \<and>
   circbuf_allocBuffer ex_collab ex_shared 100 ex_world
     = Some (kCircBufOk, ex_shared_ready, 76,
             ex_world\<lparr>mem := (mem ex_world)(0x10000800 := 0), mmio := [Wr 0x10000800 0]\<rparr>) \<and>
   circbuf_connectBuffer ex_collab ex_shared ex_world
     = Some (kCircBufOk, ex_shared_ready, ex_world) \<and>
   GET_QUEUE_BUF_BASE (pCircBufHeader ex_shared_ready) = 0x10000800 \<and>
   accesses_lock_at ex_collab ex_shared_ready (0x10000800 + offsetof_lock) ex_world_unlocked \<and>
   circbuf_lock ex_collab ex_shared_ready ex_world_unlocked \<noteq> None"
proof -
  have arch: "pCircBufArchInstance ex_shared \<noteq> NULL"
    by (simp add: ex_shared_def NULL_def)
  have slot: "hostifInstance_at (bufferId ex_shared) = Some kHostifInstIdU2KQueue"
    by (simp add: hostifInstance_at_def ex_shared_def NR_OF_CIRC_BUFFERS_def hostifInstance_def)
  have buf: "hostif_getBuf ex_collab (pCircBufArchInstance ex_shared) kHostifInstIdU2KQueue
             = (kHostifSuccessful, 0x10000800, 1024)"
    by (simp add: ex_collab_def)
  have env: "sizeof_tCircBufHostiBuffer ex_collab = 24"
    by (simp add: sizeof_tCircBufHostiBuffer_def ex_collab_def)
  have a: "circbuf_allocBuffer ex_collab ex_shared 100 ex_world
     = Some (kCircBufOk, ex_shared_ready, 76,
             ex_world\<lparr>mem := (mem ex_world)(0x10000800 := 0), mmio := [Wr 0x10000800 0]\<rparr>)"
    by (simp add: allocBuffer_shared_eq [OF arch slot buf] env ex_shared_ready_def
        offsetof_circBufHeader_def CIRCBUF_HOSTIF_UNLOCK_def ex_world_def)
  have k: "circbuf_connectBuffer ex_collab ex_shared ex_world
     = Some (kCircBufOk, ex_shared_ready, ex_world)"
    by (simp add: connectBuffer_shared_eq [OF arch slot buf] env ex_shared_ready_def
        offsetof_circBufHeader_def)
  have arch': "pCircBufArchInstance ex_shared_ready \<noteq> NULL"
    by (simp add: ex_shared_ready_def ex_shared_def NULL_def)
  have free: "mem ex_world_unlocked
                (GET_QUEUE_BUF_BASE (pCircBufHeader ex_shared_ready) + offsetof_lock)
              = CIRCBUF_HOSTIF_UNLOCK"
    by (simp add: ex_world_unlocked_def ex_world_def ex_shared_ready_def ex_shared_def
        GET_QUEUE_BUF_BASE_def offsetof_circBufHeader_def offsetof_lock_def
        CIRCBUF_HOSTIF_UNLOCK_def)
  from lock_free_returns [OF arch' free, of ex_collab]
  have l: "circbuf_lock ex_collab ex_shared_ready ex_world_unlocked \<noteq> None"
    by auto
  from header_envelope_round_trip
         [of "0x10000800" ex_shared kHostifInstIdU2KQueue ex_collab kHostifSuccessful
             "0x10000800" 1024 100 ex_world ex_world_unlocked]
       arch slot buf a k l
  show ?thesis
    by simp
qed

subsection \<open>Two CPUs taking the lock\<close>

text \<open>
  Alone, a CPU that finds the byte free is inside the lock after seven steps: read,
  test, write, loop condition, read, test, loop condition.
\<close>

lemma pcp_alone_acquires:
  "run_schedule [PCP, PCP, PCP, PCP, PCP, PCP, PCP] both_enter_lock =
     \<lparr>lock_byte = 1,
      pcp_regs = \<lparr>pc = Locked, lockValue = 1\<rparr>,
      host_regs = \<lparr>pc = L378_read, lockValue = 0\<rparr>\<rparr>"
  by (simp add: both_enter_lock_def cpu_step_def thread_step_def config_of_def
      CIRCBUF_HOSTIF_LOCK_def CIRCBUF_HOSTIF_UNLOCK_def)

lemma alone_acquires:
  assumes "lock_byte s = CIRCBUF_HOSTIF_UNLOCK"
    and "k = PCP \<Longrightarrow> pc (pcp_regs s) = L378_read"
    and "k = HOST \<Longrightarrow> pc (host_regs s) = L378_read"
  shows "inside_lock k (run_schedule [k, k, k, k, k, k, k] s) \<and>
         lock_byte (run_schedule [k, k, k, k, k, k, k] s) = CIRCBUF_HOSTIF_LOCK (config_of k)"
  using assms
  by (cases k)
    (simp_all add: cpu_step_def thread_step_def config_of_def inside_lock_def
      CIRCBUF_HOSTIF_LOCK_def CIRCBUF_HOSTIF_UNLOCK_def)

text \<open>
  C1. Mutual exclusion would have no schedule of the two CPUs lead to a state where
  both are inside the lock. This schedule does. Both CPUs read the byte while it is
  \<^verbatim>\<open>UNLOCK\<close> and pass the test of line 380. The PCP stores 1, goes round the loop, reads
  its 1 back and leaves \<^verbatim>\<open>circbuf_lock\<close>. The host, which has already seen \<^verbatim>\<open>UNLOCK\<close>,
  now stores 2 over the PCP's 1, goes round the loop, reads its 2 back and leaves
  \<^verbatim>\<open>circbuf_lock\<close> too. Neither has run \<^verbatim>\<open>circbuf_unlock\<close>.
\<close>

theorem circbuf_lock_both_inside:
  "run_schedule
     [PCP, PCP, HOST, HOST,
      PCP, PCP, PCP, PCP, PCP,
      HOST, HOST, HOST, HOST, HOST] both_enter_lock =
     \<lparr>lock_byte = 2,
      pcp_regs = \<lparr>pc = Locked, lockValue = 1\<rparr>,
      host_regs = \<lparr>pc = Locked, lockValue = 2\<rparr>\<rparr> \<and>
   inside_lock PCP
     (run_schedule
        [PCP, PCP, HOST, HOST,
         PCP, PCP, PCP, PCP, PCP,
         HOST, HOST, HOST, HOST, HOST] both_enter_lock) \<and>
   inside_lock HOST
     (run_schedule
        [PCP, PCP, HOST, HOST,
         PCP, PCP, PCP, PCP, PCP,
         HOST, HOST, HOST, HOST, HOST] both_enter_lock)"
  by (simp add: both_enter_lock_def cpu_step_def thread_step_def config_of_def inside_lock_def
      CIRCBUF_HOSTIF_LOCK_def CIRCBUF_HOSTIF_UNLOCK_def)

end
